theory Spec2Isabelle
  imports Main "HOL-Library.Word" "HOL-Library.AList_Mapping"
begin

section \<open>Go values: pointers, slices, maps, panics\<close>

text \<open>
  A Go pointer \<open>*T\<close> is an \<open>option\<close>: \<open>None\<close> is \<open>nil\<close>. A slice \<open>[]T\<close> is a
  list under an \<open>option\<close>, because \<open>cmp.Equal\<close> and \<open>reflect.DeepEqual\<close> tell the nil
  slice from the empty one; a \<open>map[string]string\<close> is a finite mapping under an
  \<open>option\<close> for the same reason. \<open>int64\<close> is a 64-bit word. A field read through a
  pointer is \<open>deref\<close>, which panics on \<open>nil\<close>; a function that may panic returns
  \<open>panic + 'a\<close>.
\<close>

type_synonym int64 = "64 word"

type_synonym 'a slice = "'a list option"

type_synonym string_map = "(string, string) mapping option"

datatype panic = NilPointerDereference

definition deref :: "'a option \<Rightarrow> panic + 'a" where
  "deref p = (case p of None \<Rightarrow> Inl NilPointerDereference | Some v \<Rightarrow> Inr v)"

definition and_then :: "panic + 'a \<Rightarrow> ('a \<Rightarrow> panic + 'b) \<Rightarrow> panic + 'b" where
  "and_then m f = (case m of Inl e \<Rightarrow> Inl e | Inr v \<Rightarrow> f v)"

definition len :: "'a slice \<Rightarrow> nat" where
  "len s = (case s of None \<Rightarrow> 0 | Some xs \<Rightarrow> length xs)"

definition elems :: "'a slice \<Rightarrow> 'a list" where
  "elems s = (case s of None \<Rightarrow> [] | Some xs \<Rightarrow> xs)"

definition append_slice :: "'a slice \<Rightarrow> 'a \<Rightarrow> 'a slice" where
  "append_slice s x = Some (elems s @ [x])"

definition len_map :: "string_map \<Rightarrow> nat" where
  "len_map m = (case m of None \<Rightarrow> 0 | Some f \<Rightarrow> Mapping.size f)"

section \<open>The desired state: package v1beta1\<close>

text \<open>
  The struct declarations of \<open>apis/container/v1beta1\<close> are not under src/. Each
  struct has the fields the adapter reads and writes, with the types those uses fix: a
  field that goes through \<open>gcp.BoolValue\<close>, \<open>gcp.Int64Value\<close> or \<open>gcp.StringValue\<close>
  is a pointer (so is \<open>Cluster\<close>, which \<open>GetFullyQualifiedName\<close> reads), a field that
  is copied as it is has the type of the provider field it is copied to.
\<close>

record NodePoolAutoscaling =
  Autoprovisioned :: "bool option"
  Enabled :: "bool option"
  MaxNodeCount :: "int64 option"
  MinNodeCount :: "int64 option"

record AcceleratorConfig =
  AcceleratorCount :: int64
  AcceleratorType :: string

record SandboxConfig =
  SandboxType :: string

record ShieldedInstanceConfig =
  EnableIntegrityMonitoring :: "bool option"
  EnableSecureBoot :: "bool option"

record NodeTaint =
  Effect :: string
  Key :: string
  Value :: string

record WorkloadMetadataConfig =
  NodeMetadata :: string

record NodeConfig =
  Accelerators :: "AcceleratorConfig option slice"
  DiskSizeGb :: "int64 option"
  DiskType :: "string option"
  ImageType :: "string option"
  Labels :: string_map
  LocalSsdCount :: "int64 option"
  MachineType :: "string option"
  Metadata :: string_map
  MinCPUPlatform :: "string option"
  OauthScopes :: "string slice"
  Preemptible :: "bool option"
  SandboxConfig :: "SandboxConfig option"
  ServiceAccount :: "string option"
  ShieldedInstanceConfig :: "ShieldedInstanceConfig option"
  Tags :: "string slice"
  Taints :: "NodeTaint option slice"
  WorkloadMetadataConfig :: "WorkloadMetadataConfig option"

record NodeManagementSpec =
  AutoRepair :: "bool option"
  AutoUpgrade :: "bool option"

record MaxPodsConstraint =
  MaxPodsPerNode :: int64

record NodePoolParameters =
  Cluster :: "string option"
  Autoscaling :: "NodePoolAutoscaling option"
  Config :: "NodeConfig option"
  InitialNodeCount :: "int64 option"
  Locations :: "string slice"
  Management :: "NodeManagementSpec option"
  MaxPodsConstraint :: "MaxPodsConstraint option"
  Version :: "string option"

record StatusCondition =
  Code :: string
  Message :: string

record AutoUpgradeOptions =
  AutoUpgradeStartTime :: string
  Description :: string

record NodeManagementStatus =
  UpgradeOptions :: "AutoUpgradeOptions option"

record NodePoolObservation =
  obs_Conditions :: "StatusCondition option slice"
  obs_InstanceGroupUrls :: "string slice"
  obs_Management :: "NodeManagementStatus option"
  obs_PodIpv4CidrSize :: int64
  obs_SelfLink :: string
  obs_Status :: string
  obs_StatusMessage :: string

section \<open>The provider's objects: package container\<close>

text \<open>
  The structs of \<open>google.golang.org/api/container/v1beta1\<close>, with the fields the
  adapter touches; their names carry the prefix \<open>c_\<close>.
\<close>

record c_NodePoolAutoscaling =
  c_Autoprovisioned :: bool
  c_Enabled :: bool
  c_MaxNodeCount :: int64
  c_MinNodeCount :: int64

record c_AcceleratorConfig =
  c_AcceleratorCount :: int64
  c_AcceleratorType :: string

record c_SandboxConfig =
  c_SandboxType :: string

record c_ShieldedInstanceConfig =
  c_EnableIntegrityMonitoring :: bool
  c_EnableSecureBoot :: bool

record c_NodeTaint =
  c_Effect :: string
  c_Key :: string
  c_Value :: string

record c_WorkloadMetadataConfig =
  c_NodeMetadata :: string

record c_NodeConfig =
  c_Accelerators :: "c_AcceleratorConfig option slice"
  c_DiskSizeGb :: int64
  c_DiskType :: string
  c_ImageType :: string
  c_Labels :: string_map
  c_LocalSsdCount :: int64
  c_MachineType :: string
  c_Metadata :: string_map
  c_MinCpuPlatform :: string
  c_OauthScopes :: "string slice"
  c_Preemptible :: bool
  c_SandboxConfig :: "c_SandboxConfig option"
  c_ServiceAccount :: string
  c_ShieldedInstanceConfig :: "c_ShieldedInstanceConfig option"
  c_Tags :: "string slice"
  c_Taints :: "c_NodeTaint option slice"
  c_WorkloadMetadataConfig :: "c_WorkloadMetadataConfig option"

record c_AutoUpgradeOptions =
  c_AutoUpgradeStartTime :: string
  c_Description :: string

record c_NodeManagement =
  c_AutoRepair :: bool
  c_AutoUpgrade :: bool
  c_UpgradeOptions :: "c_AutoUpgradeOptions option"

record c_MaxPodsConstraint =
  c_MaxPodsPerNode :: int64

record c_StatusCondition =
  c_Code :: string
  c_Message :: string

record c_NodePool =
  c_Autoscaling :: "c_NodePoolAutoscaling option"
  c_Conditions :: "c_StatusCondition option slice"
  c_Config :: "c_NodeConfig option"
  c_InitialNodeCount :: int64
  c_InstanceGroupUrls :: "string slice"
  c_Locations :: "string slice"
  c_Management :: "c_NodeManagement option"
  c_MaxPodsConstraint :: "c_MaxPodsConstraint option"
  c_Name :: string
  c_PodIpv4CidrSize :: int64
  c_SelfLink :: string
  c_Status :: string
  c_StatusMessage :: string
  c_Version :: string

record c_UpdateNodePoolRequest =
  u_ImageType :: string
  u_Locations :: "string slice"
  u_NodeVersion :: string
  u_WorkloadMetadataConfig :: "c_WorkloadMetadataConfig option"

section \<open>Zero values\<close>

text \<open>
  A Go composite literal leaves every field it does not name at the zero value of its
  type; \<open>&T{}\<close> and \<open>T{}\<close> are the all-zero struct.
\<close>

definition NodePoolAutoscaling_zero :: NodePoolAutoscaling where
  "NodePoolAutoscaling_zero =
     \<lparr>Autoprovisioned = None, Enabled = None, MaxNodeCount = None, MinNodeCount = None\<rparr>"

definition ShieldedInstanceConfig_zero :: ShieldedInstanceConfig where
  "ShieldedInstanceConfig_zero =
     \<lparr>EnableIntegrityMonitoring = None, EnableSecureBoot = None\<rparr>"

definition NodeConfig_zero :: NodeConfig where
  "NodeConfig_zero =
     \<lparr>Accelerators = None, DiskSizeGb = None, DiskType = None, ImageType = None,
      Labels = None, LocalSsdCount = None, MachineType = None, Metadata = None,
      MinCPUPlatform = None, OauthScopes = None, Preemptible = None,
      SandboxConfig = None, ServiceAccount = None, ShieldedInstanceConfig = None,
      Tags = None, Taints = None, WorkloadMetadataConfig = None\<rparr>"

definition NodeManagementSpec_zero :: NodeManagementSpec where
  "NodeManagementSpec_zero = \<lparr>AutoRepair = None, AutoUpgrade = None\<rparr>"

definition NodePoolParameters_zero :: NodePoolParameters where
  "NodePoolParameters_zero =
     \<lparr>Cluster = None, Autoscaling = None, Config = None, InitialNodeCount = None,
      Locations = None, Management = None, MaxPodsConstraint = None, Version = None\<rparr>"

definition c_NodeConfig_zero :: c_NodeConfig where
  "c_NodeConfig_zero =
     \<lparr>c_Accelerators = None, c_DiskSizeGb = 0, c_DiskType = [], c_ImageType = [],
      c_Labels = None, c_LocalSsdCount = 0, c_MachineType = [], c_Metadata = None,
      c_MinCpuPlatform = [], c_OauthScopes = None, c_Preemptible = False,
      c_SandboxConfig = None, c_ServiceAccount = [], c_ShieldedInstanceConfig = None,
      c_Tags = None, c_Taints = None, c_WorkloadMetadataConfig = None\<rparr>"

definition c_NodePool_zero :: c_NodePool where
  "c_NodePool_zero =
     \<lparr>c_Autoscaling = None, c_Conditions = None, c_Config = None, c_InitialNodeCount = 0,
      c_InstanceGroupUrls = None, c_Locations = None, c_Management = None,
      c_MaxPodsConstraint = None, c_Name = [], c_PodIpv4CidrSize = 0, c_SelfLink = [],
      c_Status = [], c_StatusMessage = [], c_Version = []\<rparr>"

definition c_UpdateNodePoolRequest_zero :: c_UpdateNodePoolRequest where
  "c_UpdateNodePoolRequest_zero =
     \<lparr>u_ImageType = [], u_Locations = None, u_NodeVersion = [],
      u_WorkloadMetadataConfig = None\<rparr>"

section \<open>The helpers of package gcp\<close>

text \<open>
  Modelled from the spec: \<open>pkg/clients/gcp.go\<close> (\<open>gcp.Int64Value\<close>,
  \<open>gcp.StringValue\<close>, \<open>gcp.BoolValue\<close>) is not under src/. The spec has no sentence
  on the three value helpers; they are read as their callers use them, turning an
  optional desired field into the provider's plain field, with Go's zero value for an
  absent one.
\<close>

definition Int64Value :: "int64 option \<Rightarrow> int64" where
  "Int64Value v = (case v of None \<Rightarrow> 0 | Some x \<Rightarrow> x)"

definition StringValue :: "string option \<Rightarrow> string" where
  "StringValue v = (case v of None \<Rightarrow> [] | Some x \<Rightarrow> x)"

definition BoolValue :: "bool option \<Rightarrow> bool" where
  "BoolValue v = (case v of None \<Rightarrow> False | Some x \<Rightarrow> x)"

text \<open>
  Modelled from the spec: the late-initialization helpers of \<open>pkg/clients/gcp.go\<close>
  (\<open>gcp.LateInitializeBool\<close>, \<open>gcp.LateInitializeInt64\<close>,
  \<open>gcp.LateInitializeString\<close>, \<open>gcp.LateInitializeStringSlice\<close>,
  \<open>gcp.LateInitializeStringMap\<close>) are not under src/. Section 4.3 of the spec:
  \<open>LateInit(current *T, observed T)\<close> "returns current unchanged if it is already
  set (non-zero / non-empty / non-nil); otherwise returns observed"; lists and maps
  are replaced "only if the current collection is empty; never partially merge
  element-wise".
\<close>

definition LateInitializeBool :: "bool option \<Rightarrow> bool \<Rightarrow> bool option" where
  "LateInitializeBool b from = (if b \<noteq> None then b else Some from)"

definition LateInitializeInt64 :: "int64 option \<Rightarrow> int64 \<Rightarrow> int64 option" where
  "LateInitializeInt64 i from = (if i \<noteq> None then i else Some from)"

definition LateInitializeString :: "string option \<Rightarrow> string \<Rightarrow> string option" where
  "LateInitializeString s from = (if s \<noteq> None then s else Some from)"

definition LateInitializeStringSlice :: "string slice \<Rightarrow> string slice \<Rightarrow> string slice" where
  "LateInitializeStringSlice s from = (if len s \<noteq> 0 then s else from)"

definition LateInitializeStringMap :: "string_map \<Rightarrow> string_map \<Rightarrow> string_map" where
  "LateInitializeStringMap s from = (if len_map s \<noteq> 0 then s else from)"

section \<open>The provider adapter: package nodepool\<close>

datatype UpdateKind =
  NoUpdate | AutoscalingUpdate | ManagementUpdate | SizeUpdate | GeneralUpdate

definition NodePoolNameFormat :: "string \<Rightarrow> string \<Rightarrow> string" where
  "NodePoolNameFormat a b = a @ ''/nodePools/'' @ b"

text \<open>
  The four generators below write through their \<open>pool *container.NodePool\<close> argument.
  The model takes the pointer and returns what it points to after the call: a write
  through a nil \<open>pool\<close> panics, and a call that writes nothing leaves a nil \<open>pool\<close>
  nil.
\<close>

definition GenerateAutoscaling ::
  "NodePoolAutoscaling option \<Rightarrow> c_NodePool option \<Rightarrow> panic + c_NodePool option" where
  "GenerateAutoscaling inp pool =
     (if inp \<noteq> None then
        and_then (deref inp) (\<lambda>i.
          let out = \<lparr>c_Autoprovisioned = BoolValue (Autoprovisioned i),
                     c_Enabled = BoolValue (Enabled i),
                     c_MaxNodeCount = Int64Value (MaxNodeCount i),
                     c_MinNodeCount = Int64Value (MinNodeCount i)\<rparr>
          in and_then (deref pool) (\<lambda>p. Inr (Some (p\<lparr>c_Autoscaling := Some out\<rparr>))))
      else Inr pool)"

text \<open>The two \<open>range\<close> loops of \<open>GenerateConfig\<close>, each with its nil check.\<close>

fun GenerateConfig_Accelerators ::
  "AcceleratorConfig option list \<Rightarrow> c_AcceleratorConfig option slice
     \<Rightarrow> panic + c_AcceleratorConfig option slice" where
  "GenerateConfig_Accelerators [] out = Inr out"
| "GenerateConfig_Accelerators (a # rest) out =
     (if a \<noteq> None then
        (case deref a of
           Inl e \<Rightarrow> Inl e
         | Inr a' \<Rightarrow>
             GenerateConfig_Accelerators rest
               (append_slice out
                  (Some \<lparr>c_AcceleratorCount = AcceleratorCount a',
                         c_AcceleratorType = AcceleratorType a'\<rparr>)))
      else GenerateConfig_Accelerators rest out)"

fun GenerateConfig_Taints ::
  "NodeTaint option list \<Rightarrow> c_NodeTaint option slice \<Rightarrow> panic + c_NodeTaint option slice" where
  "GenerateConfig_Taints [] out = Inr out"
| "GenerateConfig_Taints (t # rest) out =
     (if t \<noteq> None then
        (case deref t of
           Inl e \<Rightarrow> Inl e
         | Inr t' \<Rightarrow>
             GenerateConfig_Taints rest
               (append_slice out
                  (Some \<lparr>c_Effect = Effect t', c_Key = Key t', c_Value = Value t'\<rparr>)))
      else GenerateConfig_Taints rest out)"

definition GenerateConfig ::
  "NodeConfig option \<Rightarrow> c_NodePool option \<Rightarrow> panic + c_NodePool option" where
  "GenerateConfig inp pool =
     (if inp \<noteq> None then
        and_then (deref inp) (\<lambda>i.
          let out = c_NodeConfig_zero
                \<lparr>c_DiskSizeGb := Int64Value (DiskSizeGb i),
                 c_DiskType := StringValue (DiskType i),
                 c_ImageType := StringValue (ImageType i),
                 c_Labels := Labels i,
                 c_LocalSsdCount := Int64Value (LocalSsdCount i),
                 c_MachineType := StringValue (MachineType i),
                 c_Metadata := Metadata i,
                 c_MinCpuPlatform := StringValue (MinCPUPlatform i),
                 c_OauthScopes := OauthScopes i,
                 c_Preemptible := BoolValue (Preemptible i),
                 c_ServiceAccount := StringValue (ServiceAccount i),
                 c_Tags := Tags i\<rparr>
          in
          and_then (GenerateConfig_Accelerators (elems (Accelerators i)) (c_Accelerators out))
            (\<lambda>accs.
          let out = out\<lparr>c_Accelerators := accs\<rparr> in
          and_then
            (if SandboxConfig i \<noteq> None then
               and_then (deref (SandboxConfig i)) (\<lambda>sc.
                 Inr (out\<lparr>c_SandboxConfig := Some \<lparr>c_SandboxType = SandboxType sc\<rparr>\<rparr>))
             else Inr out)
            (\<lambda>out.
          and_then
            (if ShieldedInstanceConfig i \<noteq> None then
               and_then (deref (ShieldedInstanceConfig i)) (\<lambda>sh.
                 Inr (out\<lparr>c_ShieldedInstanceConfig := Some
                   \<lparr>c_EnableIntegrityMonitoring = BoolValue (EnableIntegrityMonitoring sh),
                    c_EnableSecureBoot = BoolValue (EnableSecureBoot sh)\<rparr>\<rparr>))
             else Inr out)
            (\<lambda>out.
          and_then (GenerateConfig_Taints (elems (Taints i)) (c_Taints out))
            (\<lambda>taints.
          let out = out\<lparr>c_Taints := taints\<rparr> in
          and_then
            (if WorkloadMetadataConfig i \<noteq> None then
               and_then (deref (WorkloadMetadataConfig i)) (\<lambda>w.
                 Inr (out\<lparr>c_WorkloadMetadataConfig := Some
                   \<lparr>c_NodeMetadata = NodeMetadata w\<rparr>\<rparr>))
             else Inr out)
            (\<lambda>out.
          and_then (deref pool) (\<lambda>p. Inr (Some (p\<lparr>c_Config := Some out\<rparr>)))))))))
      else Inr pool)"

definition GenerateManagement ::
  "NodeManagementSpec option \<Rightarrow> c_NodePool option \<Rightarrow> panic + c_NodePool option" where
  "GenerateManagement inp pool =
     (if inp \<noteq> None then
        and_then (deref inp) (\<lambda>i.
          let out = \<lparr>c_AutoRepair = BoolValue (AutoRepair i),
                     c_AutoUpgrade = BoolValue (AutoUpgrade i),
                     c_UpgradeOptions = None\<rparr>
          in and_then (deref pool) (\<lambda>p. Inr (Some (p\<lparr>c_Management := Some out\<rparr>))))
      else Inr pool)"

definition GenerateMaxPodsConstraint ::
  "MaxPodsConstraint option \<Rightarrow> c_NodePool option \<Rightarrow> panic + c_NodePool option" where
  "GenerateMaxPodsConstraint inp pool =
     (if inp \<noteq> None then
        and_then (deref inp) (\<lambda>i.
          let out = \<lparr>c_MaxPodsPerNode = MaxPodsPerNode i\<rparr>
          in and_then (deref pool) (\<lambda>p. Inr (Some (p\<lparr>c_MaxPodsConstraint := Some out\<rparr>))))
      else Inr pool)"

text \<open>
  \<open>GenerateNodePool\<close> takes its parameters by value, makes the pool itself
  (\<open>pool := &container.NodePool{...}\<close>) and returns the pointer to it; the model
  returns the pool that pointer refers to.
\<close>

definition GenerateNodePool :: "NodePoolParameters \<Rightarrow> string \<Rightarrow> panic + c_NodePool" where
  "GenerateNodePool inp name =
     (let pool = Some (c_NodePool_zero
            \<lparr>c_InitialNodeCount := Int64Value (InitialNodeCount inp),
             c_Locations := Locations inp,
             c_Name := name,
             c_Version := StringValue (Version inp)\<rparr>)
      in
      and_then (GenerateAutoscaling (Autoscaling inp) pool) (\<lambda>pool.
      and_then (GenerateConfig (Config inp) pool) (\<lambda>pool.
      and_then (GenerateManagement (Management inp) pool) (\<lambda>pool.
      and_then (GenerateMaxPodsConstraint (MaxPodsConstraint inp) pool) (\<lambda>pool.
      deref pool)))))"

text \<open>The \<open>range\<close> loop over the provider's conditions, with its nil check.\<close>

fun GenerateObservation_Conditions ::
  "c_StatusCondition option list \<Rightarrow> StatusCondition option slice
     \<Rightarrow> panic + StatusCondition option slice" where
  "GenerateObservation_Conditions [] out = Inr out"
| "GenerateObservation_Conditions (condition # rest) out =
     (if condition \<noteq> None then
        (case deref condition of
           Inl e \<Rightarrow> Inl e
         | Inr c \<Rightarrow>
             GenerateObservation_Conditions rest
               (append_slice out (Some \<lparr>Code = c_Code c, Message = c_Message c\<rparr>)))
      else GenerateObservation_Conditions rest out)"

definition GenerateObservation :: "c_NodePool \<Rightarrow> panic + NodePoolObservation" where
  "GenerateObservation inp =
     (let ob = \<lparr>obs_Conditions = None,
               obs_InstanceGroupUrls = c_InstanceGroupUrls inp,
               obs_Management = None,
               obs_PodIpv4CidrSize = c_PodIpv4CidrSize inp,
               obs_SelfLink = c_SelfLink inp,
               obs_Status = c_Status inp,
               obs_StatusMessage = c_StatusMessage inp\<rparr>
      in
      and_then (GenerateObservation_Conditions (elems (c_Conditions inp)) (obs_Conditions ob))
        (\<lambda>conds.
      let ob = ob\<lparr>obs_Conditions := conds\<rparr> in
      if c_Management inp \<noteq> None then
        and_then (deref (c_Management inp)) (\<lambda>m.
          if c_UpgradeOptions m \<noteq> None then
            and_then (deref (c_UpgradeOptions m)) (\<lambda>u.
              Inr (ob\<lparr>obs_Management := Some \<lparr>UpgradeOptions = Some
                \<lparr>AutoUpgradeStartTime = c_AutoUpgradeStartTime u,
                 Description = c_Description u\<rparr>\<rparr>\<rparr>))
          else Inr ob)
      else Inr ob))"

text \<open>
  \<open>GenerateNodePoolUpdate\<close> takes a pointer, \<open>in *v1beta1.NodePoolParameters\<close>, and
  reads \<open>in.Locations\<close> first, with no nil check.
\<close>

definition GenerateNodePoolUpdate ::
  "NodePoolParameters option \<Rightarrow> panic + c_UpdateNodePoolRequest" where
  "GenerateNodePoolUpdate inp =
     and_then (deref inp) (\<lambda>i.
       let req = c_UpdateNodePoolRequest_zero
             \<lparr>u_Locations := Locations i,
              u_NodeVersion := StringValue (Version i)\<rparr>
       in
       if Config i \<noteq> None then
         and_then (deref (Config i)) (\<lambda>cfg.
           let req = req\<lparr>u_ImageType := StringValue (ImageType cfg)\<rparr> in
           if WorkloadMetadataConfig cfg \<noteq> None then
             and_then (deref (WorkloadMetadataConfig cfg)) (\<lambda>w.
               Inr (req\<lparr>u_WorkloadMetadataConfig := Some
                 \<lparr>c_NodeMetadata = NodeMetadata w\<rparr>\<rparr>))
           else Inr req)
       else Inr req)"

definition GetFullyQualifiedName :: "NodePoolParameters \<Rightarrow> string \<Rightarrow> string" where
  "GetFullyQualifiedName p name = NodePoolNameFormat (StringValue (Cluster p)) name"

section \<open>Late initialization\<close>

text \<open>
  \<open>LateInitializeSpec\<close> mutates the spec it is given by reference; the model takes
  the spec and returns it updated. Each \<open>if in.X != nil\<close> block of the source is one
  definition below, in the order of the source; a run of assignments that each read
  and write one field of their own is one record update. The two loops that copy the
  provider's accelerators and taints read \<open>a.AcceleratorCount\<close> and \<open>t.Effect\<close> with
  no nil check.
\<close>

definition LateInitializeSpec_Autoscaling ::
  "NodePoolParameters \<Rightarrow> c_NodePool \<Rightarrow> panic + NodePoolParameters" where
  "LateInitializeSpec_Autoscaling spec inp =
     (if c_Autoscaling inp \<noteq> None then
        and_then (deref (c_Autoscaling inp)) (\<lambda>ia.
          let spec = (if Autoscaling spec = None
                      then spec\<lparr>Autoscaling := Some NodePoolAutoscaling_zero\<rparr> else spec)
          in
          and_then (deref (Autoscaling spec)) (\<lambda>sa.
            let sa = sa
                  \<lparr>Autoprovisioned :=
                     LateInitializeBool (Autoprovisioned sa) (c_Autoprovisioned ia),
                   Enabled := LateInitializeBool (Enabled sa) (c_Enabled ia),
                   MaxNodeCount := LateInitializeInt64 (MaxNodeCount sa) (c_MaxNodeCount ia),
                   MinNodeCount := LateInitializeInt64 (MinNodeCount sa) (c_MinNodeCount ia)\<rparr>
            in Inr (spec\<lparr>Autoscaling := Some sa\<rparr>)))
      else Inr spec)"

text \<open>
  \<open>make([]*T, n)\<close> is \<open>n\<close> nil pointers; the loop then assigns index \<open>i\<close> for
  each element of the provider's list, and the index is always in range.
\<close>

fun LateInitializeSpec_Accelerators ::
  "nat \<Rightarrow> c_AcceleratorConfig option list \<Rightarrow> AcceleratorConfig option list
     \<Rightarrow> panic + AcceleratorConfig option list" where
  "LateInitializeSpec_Accelerators i [] out = Inr out"
| "LateInitializeSpec_Accelerators i (a # rest) out =
     (case deref a of
        Inl e \<Rightarrow> Inl e
      | Inr a' \<Rightarrow>
          LateInitializeSpec_Accelerators (Suc i) rest
            (out[i := Some \<lparr>AcceleratorCount = c_AcceleratorCount a',
                            AcceleratorType = c_AcceleratorType a'\<rparr>]))"

fun LateInitializeSpec_Taints ::
  "nat \<Rightarrow> c_NodeTaint option list \<Rightarrow> NodeTaint option list
     \<Rightarrow> panic + NodeTaint option list" where
  "LateInitializeSpec_Taints i [] out = Inr out"
| "LateInitializeSpec_Taints i (t # rest) out =
     (case deref t of
        Inl e \<Rightarrow> Inl e
      | Inr t' \<Rightarrow>
          LateInitializeSpec_Taints (Suc i) rest
            (out[i := Some \<lparr>Effect = c_Effect t', Key = c_Key t', Value = c_Value t'\<rparr>]))"

text \<open>
  The statements of the \<open>if in.Config != nil\<close> block after \<open>spec.Config\<close> has been
  made non-nil: \<open>sc\<close> is the struct \<open>spec.Config\<close> points to, \<open>ic\<close> the one
  \<open>in.Config\<close> points to.
\<close>

definition LateInitializeSpec_Config_fields :: "NodeConfig \<Rightarrow> c_NodeConfig \<Rightarrow> panic + NodeConfig" where
  "LateInitializeSpec_Config_fields sc ic =
     and_then
       (if len (c_Accelerators ic) \<noteq> 0 \<and> len (Accelerators sc) = 0 then
          and_then
            (LateInitializeSpec_Accelerators 0 (elems (c_Accelerators ic))
               (replicate (len (c_Accelerators ic)) None))
            (\<lambda>accs. Inr (sc\<lparr>Accelerators := Some accs\<rparr>))
        else Inr sc)
       (\<lambda>sc.
     let sc = sc
           \<lparr>DiskSizeGb := LateInitializeInt64 (DiskSizeGb sc) (c_DiskSizeGb ic),
            DiskType := LateInitializeString (DiskType sc) (c_DiskType ic),
            ImageType := LateInitializeString (ImageType sc) (c_ImageType ic),
            Labels := LateInitializeStringMap (Labels sc) (c_Labels ic),
            LocalSsdCount := LateInitializeInt64 (LocalSsdCount sc) (c_LocalSsdCount ic),
            MachineType := LateInitializeString (MachineType sc) (c_MachineType ic),
            Metadata := LateInitializeStringMap (Metadata sc) (c_Metadata ic),
            MinCPUPlatform := LateInitializeString (MinCPUPlatform sc) (c_MinCpuPlatform ic),
            OauthScopes := LateInitializeStringSlice (OauthScopes sc) (c_OauthScopes ic),
            Preemptible := LateInitializeBool (Preemptible sc) (c_Preemptible ic)\<rparr>
     in
     and_then
       (if c_SandboxConfig ic \<noteq> None \<and> SandboxConfig sc = None then
          and_then (deref (c_SandboxConfig ic)) (\<lambda>isc.
            Inr (sc\<lparr>SandboxConfig := Some \<lparr>SandboxType = c_SandboxType isc\<rparr>\<rparr>))
        else Inr sc)
       (\<lambda>sc.
     let sc = sc\<lparr>ServiceAccount :=
                LateInitializeString (ServiceAccount sc) (c_ServiceAccount ic)\<rparr>
     in
     and_then
       (if c_ShieldedInstanceConfig ic \<noteq> None then
          and_then (deref (c_ShieldedInstanceConfig ic)) (\<lambda>ish.
            let sc = (if ShieldedInstanceConfig sc = None
                      then sc\<lparr>ShieldedInstanceConfig := Some ShieldedInstanceConfig_zero\<rparr>
                      else sc)
            in
            and_then (deref (ShieldedInstanceConfig sc)) (\<lambda>ssh.
              let ssh = ssh
                    \<lparr>EnableIntegrityMonitoring :=
                       LateInitializeBool (EnableIntegrityMonitoring ssh)
                         (c_EnableIntegrityMonitoring ish),
                     EnableSecureBoot :=
                       LateInitializeBool (EnableSecureBoot ssh) (c_EnableSecureBoot ish)\<rparr>
              in Inr (sc\<lparr>ShieldedInstanceConfig := Some ssh\<rparr>)))
        else Inr sc)
       (\<lambda>sc.
     let sc = sc\<lparr>Tags := LateInitializeStringSlice (Tags sc) (c_Tags ic)\<rparr> in
     and_then
       (if len (c_Taints ic) \<noteq> 0 \<and> len (Taints sc) = 0 then
          and_then
            (LateInitializeSpec_Taints 0 (elems (c_Taints ic))
               (replicate (len (c_Taints ic)) None))
            (\<lambda>taints. Inr (sc\<lparr>Taints := Some taints\<rparr>))
        else Inr sc)
       (\<lambda>sc.
     if c_WorkloadMetadataConfig ic \<noteq> None \<and> WorkloadMetadataConfig sc = None then
       and_then (deref (c_WorkloadMetadataConfig ic)) (\<lambda>iw.
         Inr (sc\<lparr>WorkloadMetadataConfig := Some \<lparr>NodeMetadata = c_NodeMetadata iw\<rparr>\<rparr>))
     else Inr sc))))"

definition LateInitializeSpec_Config ::
  "NodePoolParameters \<Rightarrow> c_NodePool \<Rightarrow> panic + NodePoolParameters" where
  "LateInitializeSpec_Config spec inp =
     (if c_Config inp \<noteq> None then
        and_then (deref (c_Config inp)) (\<lambda>ic.
          let spec = (if Config spec = None
                      then spec\<lparr>Config := Some NodeConfig_zero\<rparr> else spec)
          in
          and_then (deref (Config spec)) (\<lambda>sc.
          and_then (LateInitializeSpec_Config_fields sc ic) (\<lambda>sc.
            Inr (spec\<lparr>Config := Some sc\<rparr>))))
      else Inr spec)"

definition LateInitializeSpec_Management ::
  "NodePoolParameters \<Rightarrow> c_NodePool \<Rightarrow> panic + NodePoolParameters" where
  "LateInitializeSpec_Management spec inp =
     (if c_Management inp \<noteq> None then
        and_then (deref (c_Management inp)) (\<lambda>im.
          let spec = (if Management spec = None
                      then spec\<lparr>Management := Some NodeManagementSpec_zero\<rparr> else spec)
          in
          and_then (deref (Management spec)) (\<lambda>sm.
            let sm = sm
                  \<lparr>AutoRepair := LateInitializeBool (AutoRepair sm) (c_AutoRepair im),
                   AutoUpgrade := LateInitializeBool (AutoUpgrade sm) (c_AutoUpgrade im)\<rparr>
            in Inr (spec\<lparr>Management := Some sm\<rparr>)))
      else Inr spec)"

definition LateInitializeSpec_MaxPodsConstraint ::
  "NodePoolParameters \<Rightarrow> c_NodePool \<Rightarrow> panic + NodePoolParameters" where
  "LateInitializeSpec_MaxPodsConstraint spec inp =
     (if c_MaxPodsConstraint inp \<noteq> None \<and> MaxPodsConstraint spec = None then
        and_then (deref (c_MaxPodsConstraint inp)) (\<lambda>imp.
          Inr (spec\<lparr>MaxPodsConstraint := Some \<lparr>MaxPodsPerNode = c_MaxPodsPerNode imp\<rparr>\<rparr>))
      else Inr spec)"

definition LateInitializeSpec ::
  "NodePoolParameters \<Rightarrow> c_NodePool \<Rightarrow> panic + NodePoolParameters" where
  "LateInitializeSpec spec inp =
     and_then (LateInitializeSpec_Autoscaling spec inp) (\<lambda>spec.
     and_then (LateInitializeSpec_Config spec inp) (\<lambda>spec.
     let spec = spec
           \<lparr>InitialNodeCount :=
              LateInitializeInt64 (InitialNodeCount spec) (c_InitialNodeCount inp),
            Locations := LateInitializeStringSlice (Locations spec) (c_Locations inp)\<rparr>
     in
     and_then (LateInitializeSpec_Management spec inp) (\<lambda>spec.
     and_then (LateInitializeSpec_MaxPodsConstraint spec inp) (\<lambda>spec.
     Inr (spec\<lparr>Version := LateInitializeString (Version spec) (c_Version inp)\<rparr>)))))"

section \<open>The drift classifier\<close>

text \<open>
  \<open>cmp.Equal\<close> of go-cmp, called with no options on values whose structs have
  exported fields only: pointers are equal when both are nil or both point to equal
  values, slices and maps when both are nil or both are non-nil with equal contents,
  structs field by field. On the representation above this is equality.
\<close>

definition cmp_Equal :: "'a \<Rightarrow> 'a \<Rightarrow> bool" where
  "cmp_Equal x y = (x = y)"

definition IsUpToDate :: "NodePoolParameters \<Rightarrow> c_NodePool \<Rightarrow> panic + bool \<times> UpdateKind" where
  "IsUpToDate inp currentState =
     and_then (LateInitializeSpec NodePoolParameters_zero currentState) (\<lambda>currentParams.
       if \<not> cmp_Equal (Autoscaling inp) (Autoscaling currentParams) then
         Inr (False, AutoscalingUpdate)
       else if \<not> cmp_Equal (Management inp) (Management currentParams) then
         Inr (False, ManagementUpdate)
       else if \<not> cmp_Equal inp currentParams then
         Inr (False, GeneralUpdate)
       else Inr (True, NoUpdate))"

definition returns :: "panic + 'a \<Rightarrow> bool" where
  "returns m = (case m of Inl e \<Rightarrow> False | Inr v \<Rightarrow> True)"

text \<open>The call returns, and what it returns is a non-nil pointer.\<close>

definition returns_non_nil :: "panic + 'a option \<Rightarrow> bool" where
  "returns_non_nil m = (case m of Inl e \<Rightarrow> False | Inr v \<Rightarrow> v \<noteq> None)"

section \<open>Go errors\<close>

text \<open>
  An \<open>error\<close> value is \<open>go_error option\<close>, \<open>None\<close> for \<open>nil\<close>. The constructors
  follow the taxonomy of section 7 of the spec: the provider's distinguishable
  not-found error, any other error of the provider API, an error of the resource
  store, and the errors the controller makes itself with \<open>errors.New\<close> and
  \<open>errors.Wrap\<close> of \<open>github.com/pkg/errors\<close>. \<open>errors.Wrap\<close> of \<open>nil\<close> is \<open>nil\<close>.
\<close>

datatype go_error =
  NotFoundError
| ProviderAPIError string
| StoreError string
| New string
| Wrap go_error string

definition errors_New :: "string \<Rightarrow> go_error option" where
  "errors_New message = Some (New message)"

definition errors_Wrap :: "go_error option \<Rightarrow> string \<Rightarrow> go_error option" where
  "errors_Wrap err message = (case err of None \<Rightarrow> None | Some e \<Rightarrow> Some (Wrap e message))"

text \<open>
  Modelled from the spec: \<open>gcp.IsErrorNotFound\<close> of \<open>pkg/clients/gcp.go\<close> is not under
  src/. Section 6 of the spec: the provider API returns "\<open>NotFound\<close> as a
  distinguishable error"; the helper recognises exactly that error.
\<close>

definition IsErrorNotFound :: "go_error option \<Rightarrow> bool" where
  "IsErrorNotFound err = (err = Some NotFoundError)"

text \<open>\<open>resource.Ignore\<close> of crossplane-runtime: \<open>nil\<close> when the predicate holds.\<close>

definition Ignore :: "(go_error option \<Rightarrow> bool) \<Rightarrow> go_error option \<Rightarrow> go_error option" where
  "Ignore is err = (if is err then None else err)"

definition errGetProvider :: string where "errGetProvider = ''cannot get Provider''"
definition errGetProviderSecret :: string where
  "errGetProviderSecret = ''cannot get Provider Secret''"
definition errNewClient :: string where
  "errNewClient = ''cannot create new GKE cluster client''"
definition errManagedUpdateFailed :: string where
  "errManagedUpdateFailed = ''cannot update GKECluster custom resource''"
definition errNotCluster :: string where
  "errNotCluster = ''managed resource is not a GKECluster''"
definition errGetCluster :: string where "errGetCluster = ''cannot get GKE cluster''"
definition errCreateCluster :: string where "errCreateCluster = ''cannot create GKE cluster''"
definition errUpdateCluster :: string where "errUpdateCluster = ''cannot update GKE cluster''"
definition errDeleteCluster :: string where "errDeleteCluster = ''cannot delete GKE cluster''"

section \<open>Conditions and binding: crossplane-runtime\<close>

text \<open>
  A condition of \<open>crossplane-runtime/apis/core/v1alpha1\<close> without its transition time
  and message: \<open>Condition.Equal\<close> ignores the time, and the four conditions used here
  carry no message. \<open>SetConditions\<close> replaces every condition of the same type and
  appends the condition when there is none of its type.
\<close>

datatype ConditionType = TypeReady | TypeSynced

datatype ConditionStatus = ConditionTrue | ConditionFalse | ConditionUnknown

datatype ConditionReason =
  ReasonAvailable | ReasonUnavailable | ReasonCreating | ReasonDeleting
| ReasonReconcileSuccess | ReasonReconcileError

record Condition =
  cond_Type :: ConditionType
  cond_Status :: ConditionStatus
  cond_Reason :: ConditionReason

definition Available :: Condition where
  "Available = \<lparr>cond_Type = TypeReady, cond_Status = ConditionTrue,
                 cond_Reason = ReasonAvailable\<rparr>"

definition Creating :: Condition where
  "Creating = \<lparr>cond_Type = TypeReady, cond_Status = ConditionFalse,
                cond_Reason = ReasonCreating\<rparr>"

definition Unavailable :: Condition where
  "Unavailable = \<lparr>cond_Type = TypeReady, cond_Status = ConditionFalse,
                   cond_Reason = ReasonUnavailable\<rparr>"

definition Deleting :: Condition where
  "Deleting = \<lparr>cond_Type = TypeReady, cond_Status = ConditionFalse,
                cond_Reason = ReasonDeleting\<rparr>"

definition SetCondition :: "Condition list \<Rightarrow> Condition \<Rightarrow> Condition list" where
  "SetCondition cs new =
     (if \<exists>existing \<in> set cs. cond_Type existing = cond_Type new
      then map (\<lambda>existing. if cond_Type existing = cond_Type new then new else existing) cs
      else cs @ [new])"

fun SetConditions :: "Condition list \<Rightarrow> Condition list \<Rightarrow> Condition list" where
  "SetConditions cs [] = cs"
| "SetConditions cs (new # rest) = SetConditions (SetCondition cs new) rest"

datatype BindingPhase =
  BindingPhaseUnset | BindingPhaseUnbindable | BindingPhaseUnbound
| BindingPhaseBound | BindingPhaseReleased

section \<open>The managed resource\<close>

text \<open>
  The struct declarations of \<open>apis/compute/v1beta1\<close> are not under src/. The cluster
  parameters are a type parameter \<open>'p\<close>; of the observation only the \<open>Status\<close> field
  the controller switches on is named, the rest is the record's extension \<open>'o\<close>. The
  external name is the annotation \<open>meta.GetExternalName\<close> reads.
\<close>

record GKEClusterObservation =
  cluster_Status :: string

record 'p GKEClusterSpec =
  ProviderReference :: string
  ForProvider :: 'p

record 'o GKEClusterStatus =
  Conditions :: "Condition list"
  Phase :: BindingPhase
  AtProvider :: "'o GKEClusterObservation_scheme"

record ('p, 'o) GKECluster =
  ExternalName :: string
  Spec :: "'p GKEClusterSpec"
  Status :: "'o GKEClusterStatus"

text \<open>
  A \<open>resource.Managed\<close> is a \<open>GKECluster\<close> or a resource of another kind, of which
  only the kind's name is kept; the type assertion \<open>mg.(*v1beta1.GKECluster)\<close> is the
  case distinction.
\<close>

datatype ('p, 'o) Managed =
  GKEClusterManaged "('p, 'o) GKECluster"
| OtherManaged string

text \<open>
  Modelled from the spec: the \<open>ClusterState\<close> constants of \<open>apis/compute/v1beta1\<close> are
  not under src/. The spec names the provider's states running ("RUNNING"),
  provisioning ("PROVISIONING"), unspecified, degraded, error and reconciling; the
  strings are the provider's names for them.
\<close>

definition ClusterStateUnspecified :: string where
  "ClusterStateUnspecified = ''STATUS_UNSPECIFIED''"
definition ClusterStateProvisioning :: string where
  "ClusterStateProvisioning = ''PROVISIONING''"
definition ClusterStateRunning :: string where "ClusterStateRunning = ''RUNNING''"
definition ClusterStateReconciling :: string where
  "ClusterStateReconciling = ''RECONCILING''"
definition ClusterStateError :: string where "ClusterStateError = ''ERROR''"
definition ClusterStateDegraded :: string where "ClusterStateDegraded = ''DEGRADED''"

text \<open>
  \<open>resource.SetBindable\<close> of crossplane-runtime: a bound resource stays bound, any
  other becomes unbound, which is the phase in which it can be bound.
\<close>

definition SetBindable :: "('p, 'o) GKECluster \<Rightarrow> ('p, 'o) GKECluster" where
  "SetBindable cr =
     (if Phase (Status cr) = BindingPhaseBound then cr
      else cr\<lparr>Status := (Status cr)\<lparr>Phase := BindingPhaseUnbound\<rparr>\<rparr>)"

definition bindable :: "('p, 'o) GKECluster \<Rightarrow> bool" where
  "bindable cr = (Phase (Status cr) \<in> {BindingPhaseUnbound, BindingPhaseBound})"

section \<open>The remote collaborators\<close>

text \<open>
  Every call that leaves the process is logged, in order. What a collaborator answers
  may depend on the calls made before, so each answer is a function of the log at the
  time of the call. A write to the resource store (\<open>kube.Update\<close>) answers with an
  error or with none and leaves the object in memory as the controller built it. \<open>'c\<close> is \<open>container.Cluster\<close>; \<open>'u\<close> is the update function that
  \<open>gke.IsUpToDate\<close> returns, and calling it is the provider's update call.
\<close>

datatype ('p, 'o, 'c, 'u) call =
  Kube_Get_Provider string
| Kube_Get_Secret string string
| Kube_Update "('p, 'o) GKECluster"
| Clusters_Get string
| Clusters_Create string 'c
| Clusters_Delete string
| Clusters_Update 'u

type_synonym ('p, 'o, 'c, 'u) calls = "('p, 'o, 'c, 'u) call list"

record Provider =
  ProjectID :: string
  Secret_Namespace :: string
  Secret_Name :: string
  Secret_Key :: string

record ('p, 'o, 'c, 'u) kube_client =
  kube_Get_Provider :: "('p, 'o, 'c, 'u) calls \<Rightarrow> string \<Rightarrow> go_error + Provider"
  kube_Get_Secret ::
    "('p, 'o, 'c, 'u) calls \<Rightarrow> string \<Rightarrow> string \<Rightarrow> go_error + (string \<Rightarrow> string)"
  kube_Update :: "('p, 'o, 'c, 'u) calls \<Rightarrow> ('p, 'o) GKECluster \<Rightarrow> go_error option"

record ('p, 'o, 'c, 'u) Service =
  Clusters_Get_Do :: "('p, 'o, 'c, 'u) calls \<Rightarrow> string \<Rightarrow> go_error + 'c"
  Clusters_Create_Do :: "('p, 'o, 'c, 'u) calls \<Rightarrow> string \<Rightarrow> 'c \<Rightarrow> go_error option"
  Clusters_Delete_Do :: "('p, 'o, 'c, 'u) calls \<Rightarrow> string \<Rightarrow> go_error option"
  updateFn_Do :: "('p, 'o, 'c, 'u) calls \<Rightarrow> 'u \<Rightarrow> go_error option"

record ('p, 'o, 'c, 'u) gkeConnecter =
  connecter_kube :: "('p, 'o, 'c, 'u) kube_client"
  newServiceFn :: "string \<Rightarrow> ('p, 'o, 'c, 'u) Service option \<times> go_error option"

record ('p, 'o, 'c, 'u) external =
  kube :: "('p, 'o, 'c, 'u) kube_client"
  cluster :: "('p, 'o, 'c, 'u) Service"
  projectID :: string

text \<open>
  The functions of package \<open>gke\<close> (\<open>pkg/clients/container\<close>) for clusters are not under
  src/; the controller is modelled over any implementation of them. \<open>connectionDetails\<close>
  (lines 237 to 256 of the controller) builds the connection secret from the fetched
  cluster alone, through \<open>gke.GenerateClientConfig\<close> and \<open>clientcmd.Write\<close>; it is
  taken as a function of the cluster.
\<close>

type_synonym ConnectionDetails = "(string \<times> string) list option"

record ('p, 'o, 'c, 'u) gke =
  gke_GenerateObservation :: "'c \<Rightarrow> 'o GKEClusterObservation_scheme"
  gke_LateInitializeSpec :: "'p \<Rightarrow> 'c \<Rightarrow> 'p"
  gke_IsUpToDate :: "'p \<Rightarrow> 'c \<Rightarrow> bool \<times> 'u"
  gke_GenerateCluster :: "'p \<Rightarrow> 'c"
  connectionDetails :: "'c \<Rightarrow> ConnectionDetails"

section \<open>The controller of GKE clusters\<close>

text \<open>
  An operation of the controller returns its Go results (a value and an error),
  together with the managed resource as the operation left it and the log of remote
  calls extended by the calls it made.
\<close>

record ('r, 'p, 'o, 'c, 'u) outcome =
  res_value :: 'r
  res_error :: "go_error option"
  res_managed :: "('p, 'o) Managed"
  res_calls :: "('p, 'o, 'c, 'u) calls"

record ExternalObservation =
  ResourceExists :: bool
  ResourceUpToDate :: bool
  ConnectionDetails :: ConnectionDetails

definition ExternalObservation_zero :: ExternalObservation where
  "ExternalObservation_zero =
     \<lparr>ResourceExists = False, ResourceUpToDate = False, ConnectionDetails = None\<rparr>"

datatype ExternalCreation = ExternalCreation_zero

datatype ExternalUpdate = ExternalUpdate_zero

text \<open>
  \<open>Connect\<close> dereferences the service \<open>newServiceFn\<close> returns before it looks at the
  error, so its result is under \<open>panic\<close>.
\<close>

definition Connect ::
  "('p, 'o, 'c, 'u) gkeConnecter \<Rightarrow> ('p, 'o, 'c, 'u) calls \<Rightarrow> ('p, 'o) Managed
     \<Rightarrow> panic + (('p, 'o, 'c, 'u) external option, 'p, 'o, 'c, 'u) outcome" where
  "Connect c calls mg =
     (case mg of
        OtherManaged kind \<Rightarrow>
          Inr \<lparr>res_value = None, res_error = errors_New errNotCluster,
               res_managed = mg, res_calls = calls\<rparr>
      | GKEClusterManaged i \<Rightarrow>
          let name = ProviderReference (Spec i);
              calls1 = calls @ [Kube_Get_Provider name]
          in
          (case kube_Get_Provider (connecter_kube c) calls name of
             Inl err \<Rightarrow>
               Inr \<lparr>res_value = None, res_error = errors_Wrap (Some err) errGetProvider,
                    res_managed = mg, res_calls = calls1\<rparr>
           | Inr p \<Rightarrow>
               let calls2 = calls1 @ [Kube_Get_Secret (Secret_Namespace p) (Secret_Name p)] in
               (case kube_Get_Secret (connecter_kube c) calls1
                       (Secret_Namespace p) (Secret_Name p) of
                  Inl err \<Rightarrow>
                    Inr \<lparr>res_value = None,
                         res_error = errors_Wrap (Some err) errGetProviderSecret,
                         res_managed = mg, res_calls = calls2\<rparr>
                | Inr s \<Rightarrow>
                    (case newServiceFn c (s (Secret_Key p)) of
                       (gke, err) \<Rightarrow>
                         and_then (deref gke) (\<lambda>service.
                           Inr \<lparr>res_value = Some
                                  \<lparr>kube = connecter_kube c, cluster = service,
                                   projectID = ProjectID p\<rparr>,
                                res_error = errors_Wrap err errNewClient,
                                res_managed = mg, res_calls = calls2\<rparr>)))))"

text \<open>The \<open>switch\<close> of \<open>Observe\<close> on the observed status.\<close>

definition Observe_conditions :: "('p, 'o) GKECluster \<Rightarrow> ('p, 'o) GKECluster" where
  "Observe_conditions cr =
     (let s = cluster_Status (AtProvider (Status cr)) in
      if s = ClusterStateRunning then
        SetBindable
          (cr\<lparr>Status := (Status cr)
             \<lparr>Conditions := SetConditions (Conditions (Status cr)) [Available]\<rparr>\<rparr>)
      else if s = ClusterStateProvisioning then
        cr\<lparr>Status := (Status cr)
          \<lparr>Conditions := SetConditions (Conditions (Status cr)) [Creating]\<rparr>\<rparr>
      else if s = ClusterStateUnspecified \<or> s = ClusterStateDegraded \<or>
              s = ClusterStateError \<or> s = ClusterStateReconciling then
        cr\<lparr>Status := (Status cr)
          \<lparr>Conditions := SetConditions (Conditions (Status cr)) [Unavailable]\<rparr>\<rparr>
      else cr)"

definition Observe ::
  "('p, 'o, 'c, 'u) gke \<Rightarrow> ('p, 'o, 'c, 'u) external \<Rightarrow> ('p, 'o, 'c, 'u) calls
     \<Rightarrow> ('p, 'o) Managed \<Rightarrow> (ExternalObservation, 'p, 'o, 'c, 'u) outcome" where
  "Observe g e calls mg =
     (case mg of
        OtherManaged kind \<Rightarrow>
          \<lparr>res_value = ExternalObservation_zero, res_error = errors_New errNotCluster,
           res_managed = mg, res_calls = calls\<rparr>
      | GKEClusterManaged cr \<Rightarrow>
          let calls1 = calls @ [Clusters_Get (ExternalName cr)] in
          (case Clusters_Get_Do (cluster e) calls (ExternalName cr) of
             Inl err \<Rightarrow>
               \<lparr>res_value = ExternalObservation_zero,
                res_error = errors_Wrap (Ignore IsErrorNotFound (Some err)) errGetCluster,
                res_managed = mg, res_calls = calls1\<rparr>
           | Inr existing \<Rightarrow>
               let cr = cr\<lparr>Status := (Status cr)
                          \<lparr>AtProvider := gke_GenerateObservation g existing\<rparr>\<rparr>;
                   currentSpec = ForProvider (Spec cr);
                   cr = cr\<lparr>Spec := (Spec cr)
                          \<lparr>ForProvider :=
                             gke_LateInitializeSpec g (ForProvider (Spec cr)) existing\<rparr>\<rparr>;
                   persist = (currentSpec \<noteq> ForProvider (Spec cr));
                   calls2 = (if persist then calls1 @ [Kube_Update cr] else calls1);
                   err = (if persist then kube_Update (kube e) calls1 cr else None)
               in
               if err \<noteq> None then
                 \<lparr>res_value = ExternalObservation_zero,
                  res_error = errors_Wrap err errManagedUpdateFailed,
                  res_managed = GKEClusterManaged cr, res_calls = calls2\<rparr>
               else
                 let cr = Observe_conditions cr;
                     upToDate = fst (gke_IsUpToDate g (ForProvider (Spec cr)) existing)
                 in
                 \<lparr>res_value =
                    \<lparr>ResourceExists = True, ResourceUpToDate = upToDate,
                     ConnectionDetails = connectionDetails g existing\<rparr>,
                  res_error = None,
                  res_managed = GKEClusterManaged cr, res_calls = calls2\<rparr>))"

definition Create ::
  "('p, 'o, 'c, 'u) gke \<Rightarrow> ('p, 'o, 'c, 'u) external \<Rightarrow> ('p, 'o, 'c, 'u) calls
     \<Rightarrow> ('p, 'o) Managed \<Rightarrow> (ExternalCreation, 'p, 'o, 'c, 'u) outcome" where
  "Create g e calls mg =
     (case mg of
        OtherManaged kind \<Rightarrow>
          \<lparr>res_value = ExternalCreation_zero, res_error = errors_New errNotCluster,
           res_managed = mg, res_calls = calls\<rparr>
      | GKEClusterManaged i \<Rightarrow>
          let cluster_req = gke_GenerateCluster g (ForProvider (Spec i));
              calls1 = calls @ [Clusters_Create ''TODO'' cluster_req];
              err = Clusters_Create_Do (cluster e) calls ''TODO'' cluster_req
          in
          if err \<noteq> None then
            \<lparr>res_value = ExternalCreation_zero,
             res_error = errors_Wrap err errCreateCluster,
             res_managed = mg, res_calls = calls1\<rparr>
          else
            \<lparr>res_value = ExternalCreation_zero, res_error = None,
             res_managed = mg, res_calls = calls1\<rparr>)"

definition Update ::
  "('p, 'o, 'c, 'u) gke \<Rightarrow> ('p, 'o, 'c, 'u) external \<Rightarrow> ('p, 'o, 'c, 'u) calls
     \<Rightarrow> ('p, 'o) Managed \<Rightarrow> (ExternalUpdate, 'p, 'o, 'c, 'u) outcome" where
  "Update g e calls mg =
     (case mg of
        OtherManaged kind \<Rightarrow>
          \<lparr>res_value = ExternalUpdate_zero, res_error = errors_New errNotCluster,
           res_managed = mg, res_calls = calls\<rparr>
      | GKEClusterManaged i \<Rightarrow>
          let calls1 = calls @ [Clusters_Get (ExternalName i)] in
          (case Clusters_Get_Do (cluster e) calls (ExternalName i) of
             Inl err \<Rightarrow>
               \<lparr>res_value = ExternalUpdate_zero,
                res_error = errors_Wrap (Some err) errGetCluster,
                res_managed = mg, res_calls = calls1\<rparr>
           | Inr existing \<Rightarrow>
               (case gke_IsUpToDate g (ForProvider (Spec i)) existing of
                  (upToDate, updateFn) \<Rightarrow>
                    if upToDate then
                      \<lparr>res_value = ExternalUpdate_zero, res_error = None,
                       res_managed = mg, res_calls = calls1\<rparr>
                    else
                      \<lparr>res_value = ExternalUpdate_zero,
                       res_error =
                         errors_Wrap (updateFn_Do (cluster e) calls1 updateFn) errUpdateCluster,
                       res_managed = mg,
                       res_calls = calls1 @ [Clusters_Update updateFn]\<rparr>)))"

text \<open>\<open>Delete\<close> has the error as its only Go result.\<close>

definition Delete ::
  "('p, 'o, 'c, 'u) external \<Rightarrow> ('p, 'o, 'c, 'u) calls \<Rightarrow> ('p, 'o) Managed
     \<Rightarrow> (unit, 'p, 'o, 'c, 'u) outcome" where
  "Delete e calls mg =
     (case mg of
        OtherManaged kind \<Rightarrow>
          \<lparr>res_value = (), res_error = errors_New errNotCluster,
           res_managed = mg, res_calls = calls\<rparr>
      | GKEClusterManaged i \<Rightarrow>
          let i = i\<lparr>Status := (Status i)
                     \<lparr>Conditions := SetConditions (Conditions (Status i)) [Deleting]\<rparr>\<rparr>;
              calls1 = calls @ [Clusters_Delete (ExternalName i)];
              err = Clusters_Delete_Do (cluster e) calls (ExternalName i)
          in
          if IsErrorNotFound err then
            \<lparr>res_value = (), res_error = None,
             res_managed = GKEClusterManaged i, res_calls = calls1\<rparr>
          else
            \<lparr>res_value = (), res_error = errors_Wrap err errDeleteCluster,
             res_managed = GKEClusterManaged i, res_calls = calls1\<rparr>)"

section \<open>Properties of late initialization\<close>

text \<open>
  What "additive only" means, field kind by field kind: a pointer that is set keeps
  its value, a slice or map that is not empty keeps its value, and a nested object
  that is present stays present and keeps every field of its own that is set.
\<close>

definition kept :: "'a option \<Rightarrow> 'a option \<Rightarrow> bool" where
  "kept cur new = (cur \<noteq> None \<longrightarrow> new = cur)"

definition kept_slice :: "'a slice \<Rightarrow> 'a slice \<Rightarrow> bool" where
  "kept_slice cur new = (len cur \<noteq> 0 \<longrightarrow> new = cur)"

definition kept_map :: "string_map \<Rightarrow> string_map \<Rightarrow> bool" where
  "kept_map cur new = (len_map cur \<noteq> 0 \<longrightarrow> new = cur)"

definition kept_nested :: "('a \<Rightarrow> 'a \<Rightarrow> bool) \<Rightarrow> 'a option \<Rightarrow> 'a option \<Rightarrow> bool" where
  "kept_nested R cur new =
     (case cur of
        None \<Rightarrow> True
      | Some c \<Rightarrow> (case new of None \<Rightarrow> False | Some n \<Rightarrow> R c n))"

definition additive_Autoscaling :: "NodePoolAutoscaling \<Rightarrow> NodePoolAutoscaling \<Rightarrow> bool" where
  "additive_Autoscaling s s' =
     (kept (Autoprovisioned s) (Autoprovisioned s') \<and>
      kept (Enabled s) (Enabled s') \<and>
      kept (MaxNodeCount s) (MaxNodeCount s') \<and>
      kept (MinNodeCount s) (MinNodeCount s'))"

definition additive_ShieldedInstanceConfig ::
  "ShieldedInstanceConfig \<Rightarrow> ShieldedInstanceConfig \<Rightarrow> bool" where
  "additive_ShieldedInstanceConfig s s' =
     (kept (EnableIntegrityMonitoring s) (EnableIntegrityMonitoring s') \<and>
      kept (EnableSecureBoot s) (EnableSecureBoot s'))"

definition additive_Config :: "NodeConfig \<Rightarrow> NodeConfig \<Rightarrow> bool" where
  "additive_Config s s' =
     (kept_slice (Accelerators s) (Accelerators s') \<and>
      kept (DiskSizeGb s) (DiskSizeGb s') \<and>
      kept (DiskType s) (DiskType s') \<and>
      kept (ImageType s) (ImageType s') \<and>
      kept_map (Labels s) (Labels s') \<and>
      kept (LocalSsdCount s) (LocalSsdCount s') \<and>
      kept (MachineType s) (MachineType s') \<and>
      kept_map (Metadata s) (Metadata s') \<and>
      kept (MinCPUPlatform s) (MinCPUPlatform s') \<and>
      kept_slice (OauthScopes s) (OauthScopes s') \<and>
      kept (Preemptible s) (Preemptible s') \<and>
      kept (SandboxConfig s) (SandboxConfig s') \<and>
      kept (ServiceAccount s) (ServiceAccount s') \<and>
      kept_nested additive_ShieldedInstanceConfig
        (ShieldedInstanceConfig s) (ShieldedInstanceConfig s') \<and>
      kept_slice (Tags s) (Tags s') \<and>
      kept_slice (Taints s) (Taints s') \<and>
      kept (WorkloadMetadataConfig s) (WorkloadMetadataConfig s'))"

definition additive_Management :: "NodeManagementSpec \<Rightarrow> NodeManagementSpec \<Rightarrow> bool" where
  "additive_Management s s' =
     (kept (AutoRepair s) (AutoRepair s') \<and> kept (AutoUpgrade s) (AutoUpgrade s'))"


text \<open>
  What "adopted wholesale, never merged" means: the collection after late
  initialization is the one the spec had, or, when that one was empty, the whole
  collection of the observed object. For the accelerators and the taints the observed
  collection is copied element by element into the spec's own struct type.
\<close>

definition adopted :: "'a \<Rightarrow> 'a \<Rightarrow> 'a \<Rightarrow> bool \<Rightarrow> bool" where
  "adopted cur from new cur_is_empty = (new = cur \<or> (cur_is_empty \<and> new = from))"

definition AcceleratorConfig_of :: "c_AcceleratorConfig \<Rightarrow> AcceleratorConfig" where
  "AcceleratorConfig_of a =
     \<lparr>AcceleratorCount = c_AcceleratorCount a, AcceleratorType = c_AcceleratorType a\<rparr>"

definition NodeTaint_of :: "c_NodeTaint \<Rightarrow> NodeTaint" where
  "NodeTaint_of t = \<lparr>Effect = c_Effect t, Key = c_Key t, Value = c_Value t\<rparr>"

definition wholesale_Config :: "NodeConfig \<Rightarrow> c_NodeConfig \<Rightarrow> NodeConfig \<Rightarrow> bool" where
  "wholesale_Config s ic s' =
     (adopted (Accelerators s)
        (Some (map (map_option AcceleratorConfig_of) (elems (c_Accelerators ic))))
        (Accelerators s') (len (Accelerators s) = 0) \<and>
      adopted (Labels s) (c_Labels ic) (Labels s') (len_map (Labels s) = 0) \<and>
      adopted (Metadata s) (c_Metadata ic) (Metadata s') (len_map (Metadata s) = 0) \<and>
      adopted (OauthScopes s) (c_OauthScopes ic) (OauthScopes s') (len (OauthScopes s) = 0) \<and>
      adopted (Tags s) (c_Tags ic) (Tags s') (len (Tags s) = 0) \<and>
      adopted (Taints s)
        (Some (map (map_option NodeTaint_of) (elems (c_Taints ic))))
        (Taints s') (len (Taints s) = 0))"

definition Config_or_zero :: "NodePoolParameters \<Rightarrow> NodeConfig" where
  "Config_or_zero s = (case Config s of None \<Rightarrow> NodeConfig_zero | Some c \<Rightarrow> c)"


section \<open>Example objects\<close>

text \<open>
  A desired node pool that sets some fields and leaves others unset, and an observed
  provider node pool that reports a value for every field.
\<close>

definition example_spec :: NodePoolParameters where
  "example_spec =
     \<lparr>Cluster = Some ''projects/p/locations/us-central1/clusters/c'',
      Autoscaling = Some
        \<lparr>Autoprovisioned = None, Enabled = Some True,
         MaxNodeCount = Some 3, MinNodeCount = None\<rparr>,
      Config = Some (NodeConfig_zero
        \<lparr>Accelerators := Some
           [Some \<lparr>AcceleratorCount = 1, AcceleratorType = ''nvidia-tesla-k80''\<rparr>],
         MachineType := Some ''n1-standard-1'',
         Tags := Some [''web'']\<rparr>),
      InitialNodeCount = Some 3,
      Locations = None,
      Management = None,
      MaxPodsConstraint = Some \<lparr>MaxPodsPerNode = 110\<rparr>,
      Version = None\<rparr>"

definition example_observed :: c_NodePool where
  "example_observed =
     \<lparr>c_Autoscaling = Some
        \<lparr>c_Autoprovisioned = True, c_Enabled = True,
         c_MaxNodeCount = 5, c_MinNodeCount = 1\<rparr>,
      c_Conditions = None,
      c_Config = Some
        \<lparr>c_Accelerators = Some
           [Some \<lparr>c_AcceleratorCount = 2, c_AcceleratorType = ''nvidia-tesla-p100''\<rparr>],
         c_DiskSizeGb = 100, c_DiskType = ''pd-standard'', c_ImageType = ''COS'',
         c_Labels = None, c_LocalSsdCount = 1, c_MachineType = ''n1-standard-4'',
         c_Metadata = None, c_MinCpuPlatform = ''Intel Skylake'',
         c_OauthScopes = Some [''https://www.googleapis.com/auth/compute''],
         c_Preemptible = True, c_SandboxConfig = None, c_ServiceAccount = ''default'',
         c_ShieldedInstanceConfig = Some
           \<lparr>c_EnableIntegrityMonitoring = True, c_EnableSecureBoot = True\<rparr>,
         c_Tags = Some [''db'', ''cache''],
         c_Taints = Some
           [Some \<lparr>c_Effect = ''NO_SCHEDULE'', c_Key = ''dedicated'', c_Value = ''gpu''\<rparr>],
         c_WorkloadMetadataConfig = Some \<lparr>c_NodeMetadata = ''SECURE''\<rparr>\<rparr>,
      c_InitialNodeCount = 5,
      c_InstanceGroupUrls = None,
      c_Locations = Some [''us-central1-a''],
      c_Management = Some
        \<lparr>c_AutoRepair = True, c_AutoUpgrade = True, c_UpgradeOptions = None\<rparr>,
      c_MaxPodsConstraint = Some \<lparr>c_MaxPodsPerNode = 64\<rparr>,
      c_Name = ''pool'',
      c_PodIpv4CidrSize = 24,
      c_SelfLink = [],
      c_Status = ''RUNNING'',
      c_StatusMessage = [],
      c_Version = ''1.14.8''\<rparr>"

text \<open>The spec that late initialization reconstructs from \<open>example_observed\<close> alone.\<close>

definition example_current :: NodePoolParameters where
  "example_current =
     \<lparr>Cluster = None,
      Autoscaling = Some
        \<lparr>Autoprovisioned = Some True, Enabled = Some True,
         MaxNodeCount = Some 5, MinNodeCount = Some 1\<rparr>,
      Config = Some
        \<lparr>Accelerators = Some
           [Some \<lparr>AcceleratorCount = 2, AcceleratorType = ''nvidia-tesla-p100''\<rparr>],
         DiskSizeGb = Some 100, DiskType = Some ''pd-standard'', ImageType = Some ''COS'',
         Labels = None, LocalSsdCount = Some 1, MachineType = Some ''n1-standard-4'',
         Metadata = None, MinCPUPlatform = Some ''Intel Skylake'',
         OauthScopes = Some [''https://www.googleapis.com/auth/compute''],
         Preemptible = Some True, SandboxConfig = None, ServiceAccount = Some ''default'',
         ShieldedInstanceConfig = Some
           \<lparr>EnableIntegrityMonitoring = Some True, EnableSecureBoot = Some True\<rparr>,
         Tags = Some [''db'', ''cache''],
         Taints = Some
           [Some \<lparr>Effect = ''NO_SCHEDULE'', Key = ''dedicated'', Value = ''gpu''\<rparr>],
         WorkloadMetadataConfig = Some \<lparr>NodeMetadata = ''SECURE''\<rparr>\<rparr>,
      InitialNodeCount = Some 5,
      Locations = Some [''us-central1-a''],
      Management = Some \<lparr>AutoRepair = Some True, AutoUpgrade = Some True\<rparr>,
      MaxPodsConstraint = Some \<lparr>MaxPodsPerNode = 64\<rparr>,
      Version = Some ''1.14.8''\<rparr>"

text \<open>
  A desired node pool with no autoscaling, config, management or max-pods
  sub-structure, attached to a cluster.
\<close>

definition example_plain :: NodePoolParameters where
  "example_plain =
     \<lparr>Cluster = Some ''projects/p/locations/us-central1/clusters/c'',
      Autoscaling = None, Config = None, InitialNodeCount = Some 3,
      Locations = Some [''us-central1-a''], Management = None,
      MaxPodsConstraint = None, Version = Some ''1.14.8''\<rparr>"

section \<open>The classification the spec describes\<close>

text \<open>
  Section 4.2 of the spec: the categories are compared in a fixed order, the first
  one that differs is the classification, and the object is up to date when none
  differs.
\<close>

definition first_differing :: "(UpdateKind \<times> bool) list \<Rightarrow> UpdateKind" where
  "first_differing cs = (case filter snd cs of [] \<Rightarrow> NoUpdate | (k, d) # rest \<Rightarrow> k)"

definition Classify :: "NodePoolParameters \<Rightarrow> NodePoolParameters \<Rightarrow> bool \<times> UpdateKind" where
  "Classify desired current =
     (let k = first_differing
                [(AutoscalingUpdate, Autoscaling desired \<noteq> Autoscaling current),
                 (ManagementUpdate, Management desired \<noteq> Management current),
                 (GeneralUpdate, desired \<noteq> current)]
      in (k = NoUpdate, k))"

section \<open>An example cluster\<close>

text \<open>
  A small implementation of the \<open>gke\<close> functions, to run the controller on: a cluster
  is its status and its node count, the parameters are an optional node count, late
  initialization fills an unset count from the cluster, a cluster is up to date when
  its count is the desired one, and the update function carries the desired count.
\<close>

definition example_gke :: "(nat option, unit, string \<times> nat, nat option) gke" where
  "example_gke =
     \<lparr>gke_GenerateObservation = (\<lambda>c. \<lparr>cluster_Status = fst c\<rparr>),
      gke_LateInitializeSpec = (\<lambda>p c. case p of None \<Rightarrow> Some (snd c) | Some n \<Rightarrow> Some n),
      gke_IsUpToDate = (\<lambda>p c. (p = Some (snd c), p)),
      gke_GenerateCluster = (\<lambda>p. (''PROVISIONING'', case p of None \<Rightarrow> 0 | Some n \<Rightarrow> n)),
      connectionDetails = (\<lambda>c. None)\<rparr>"

definition example_cr :: "nat option \<Rightarrow> (nat option, unit) GKECluster" where
  "example_cr desired =
     \<lparr>ExternalName = ''gke-example'',
      Spec = \<lparr>ProviderReference = ''gcp-provider'', ForProvider = desired\<rparr>,
      Status = \<lparr>Conditions = [], Phase = BindingPhaseUnset,
                AtProvider = \<lparr>cluster_Status = []\<rparr>\<rparr>\<rparr>"

text \<open>
  A provider that gives the same answer to every \<open>Get\<close> and to every \<open>Delete\<close>,
  and a resource store that accepts or refuses every write.
\<close>

definition example_service ::
  "go_error + string \<times> nat \<Rightarrow> go_error option
     \<Rightarrow> (nat option, unit, string \<times> nat, nat option) Service" where
  "example_service get_answer delete_error =
     \<lparr>Clusters_Get_Do = (\<lambda>calls name. get_answer),
      Clusters_Create_Do = (\<lambda>calls parent c. None),
      Clusters_Delete_Do = (\<lambda>calls name. delete_error),
      updateFn_Do = (\<lambda>calls u. None)\<rparr>"

definition example_kube ::
  "go_error option \<Rightarrow> (nat option, unit, string \<times> nat, nat option) kube_client" where
  "example_kube update_error =
     \<lparr>kube_Get_Provider = (\<lambda>calls name. Inl NotFoundError),
      kube_Get_Secret = (\<lambda>calls ns name. Inl NotFoundError),
      kube_Update = (\<lambda>calls cr. update_error)\<rparr>"

definition example_external ::
  "go_error + string \<times> nat \<Rightarrow> go_error option \<Rightarrow> go_error option
     \<Rightarrow> (nat option, unit, string \<times> nat, nat option) external" where
  "example_external get_answer update_error delete_error =
     \<lparr>kube = example_kube update_error,
      cluster = example_service get_answer delete_error,
      projectID = ''example-project''\<rparr>"

text \<open>
  A provider whose cluster grows between two reads: the first \<open>Get\<close> of a log finds
  three nodes, every later one finds five.
\<close>

definition growing_external :: "(nat option, unit, string \<times> nat, nat option) external" where
  "growing_external =
     \<lparr>kube = example_kube None,
      cluster = (example_service (Inr (''RUNNING'', 3)) None)
        \<lparr>Clusters_Get_Do := (\<lambda>calls name.
           if Clusters_Get name \<in> set calls then Inr (''RUNNING'', 5)
           else Inr (''RUNNING'', 3))\<rparr>,
      projectID = ''example-project''\<rparr>"

text \<open>The conditions of type \<open>Ready\<close> that a cluster carries.\<close>

definition ready_conditions :: "('p, 'o) GKECluster \<Rightarrow> Condition set" where
  "ready_conditions cr = {c \<in> set (Conditions (Status cr)). cond_Type c = TypeReady}"

section \<open>When the generators return\<close>

lemma returns_Inr: "returns (Inr v)"
  by (simp add: returns_def)

lemma returns_iff: "returns m \<longleftrightarrow> (\<exists>r. m = Inr r)"
  by (cases m) (simp_all add: returns_def)

lemma returns_and_then:
  "returns m \<Longrightarrow> (\<And>v. returns (f v)) \<Longrightarrow> returns (and_then m f)"
  by (cases m) (simp_all add: returns_def and_then_def)

text \<open>A dereference under its own nil check cannot panic.\<close>

lemma returns_guarded_deref:
  "(\<And>v. returns (f v)) \<Longrightarrow> returns g \<Longrightarrow>
   returns (if p \<noteq> None then and_then (deref p) f else g)"
  by (cases p) (simp_all add: and_then_def deref_def)

lemma GenerateConfig_Accelerators_returns:
  "returns (GenerateConfig_Accelerators xs out)"
  by (induction xs arbitrary: out) (auto simp: deref_def returns_Inr)

lemma GenerateConfig_Taints_returns:
  "returns (GenerateConfig_Taints xs out)"
  by (induction xs arbitrary: out) (auto simp: deref_def returns_Inr)

lemma GenerateObservation_Conditions_returns:
  "returns (GenerateObservation_Conditions xs out)"
  by (induction xs arbitrary: out) (auto simp: deref_def returns_Inr)

lemma returns_non_nil_iff: "returns_non_nil m \<longleftrightarrow> (\<exists>v. m = Inr (Some v))"
  by (cases m) (auto simp: returns_non_nil_def)

lemma returns_non_nil_Inr: "returns_non_nil (Inr (Some v))"
  by (simp add: returns_non_nil_def)

lemma returns_non_nil_and_then:
  "returns m \<Longrightarrow> (\<And>v. returns_non_nil (f v)) \<Longrightarrow> returns_non_nil (and_then m f)"
  by (cases m) (simp_all add: returns_def and_then_def)

lemma returns_non_nil_guarded_deref:
  "(\<And>v. returns_non_nil (f v)) \<Longrightarrow> returns_non_nil g \<Longrightarrow>
   returns_non_nil (if p \<noteq> None then and_then (deref p) f else g)"
  by (cases p) (simp_all add: and_then_def deref_def)

lemma and_then_deref_Some: "and_then (deref (Some x)) f = f x"
  by (simp add: and_then_def deref_def)

text \<open>
  Given a pool that is not nil, each of the four generators that write through it
  returns, and leaves it not nil.
\<close>

lemma GenerateAutoscaling_returns: "returns_non_nil (GenerateAutoscaling inp (Some pool))"
  unfolding GenerateAutoscaling_def Let_def and_then_deref_Some
  by (intro returns_non_nil_guarded_deref returns_non_nil_Inr)

lemma GenerateManagement_returns: "returns_non_nil (GenerateManagement inp (Some pool))"
  unfolding GenerateManagement_def Let_def and_then_deref_Some
  by (intro returns_non_nil_guarded_deref returns_non_nil_Inr)

lemma GenerateMaxPodsConstraint_returns:
  "returns_non_nil (GenerateMaxPodsConstraint inp (Some pool))"
  unfolding GenerateMaxPodsConstraint_def Let_def and_then_deref_Some
  by (intro returns_non_nil_guarded_deref returns_non_nil_Inr)

lemma GenerateConfig_returns: "returns_non_nil (GenerateConfig inp (Some pool))"
  unfolding GenerateConfig_def Let_def and_then_deref_Some
  by (intro returns_non_nil_guarded_deref returns_non_nil_and_then returns_guarded_deref
        returns_Inr returns_non_nil_Inr
        GenerateConfig_Accelerators_returns GenerateConfig_Taints_returns)

lemma GenerateConfig_absent: "GenerateConfig None pool = Inr pool"
  by (simp add: GenerateConfig_def)

lemma GenerateNodePool_returns: "returns (GenerateNodePool inp name)"
proof -
  let ?pool = "c_NodePool_zero
     \<lparr>c_InitialNodeCount := Int64Value (InitialNodeCount inp), c_Locations := Locations inp,
      c_Name := name, c_Version := StringValue (Version inp)\<rparr>"
  obtain p1 where 1: "GenerateAutoscaling (Autoscaling inp) (Some ?pool) = Inr (Some p1)"
    using GenerateAutoscaling_returns unfolding returns_non_nil_iff by blast
  obtain p2 where 2: "GenerateConfig (Config inp) (Some p1) = Inr (Some p2)"
    using GenerateConfig_returns unfolding returns_non_nil_iff by blast
  obtain p3 where 3: "GenerateManagement (Management inp) (Some p2) = Inr (Some p3)"
    using GenerateManagement_returns unfolding returns_non_nil_iff by blast
  obtain p4 where 4: "GenerateMaxPodsConstraint (MaxPodsConstraint inp) (Some p3) = Inr (Some p4)"
    using GenerateMaxPodsConstraint_returns unfolding returns_non_nil_iff by blast
  have "GenerateNodePool inp name = Inr p4"
    by (simp add: GenerateNodePool_def 1 2 3 4 and_then_def deref_def)
  then show ?thesis
    by (simp add: returns_Inr)
qed

lemma GenerateObservation_returns: "returns (GenerateObservation inp)"
  unfolding GenerateObservation_def Let_def
  by (intro returns_guarded_deref returns_and_then returns_Inr
        GenerateObservation_Conditions_returns)

lemma GenerateNodePoolUpdate_returns: "returns (GenerateNodePoolUpdate (Some inp))"
  unfolding GenerateNodePoolUpdate_def Let_def and_then_deref_Some
  by (intro returns_guarded_deref returns_Inr)

text \<open>
  C9, as claimed, fails. \<open>GenerateNodePoolUpdate\<close> reads through its parameter pointer
  with no nil check, so it panics on nil; \<open>GenerateConfig\<close>, given a node config and a
  nil pool, panics when it stores the config it built.
\<close>

theorem generators_nil_pointer_counterexample:
  "GenerateNodePoolUpdate None = Inl NilPointerDereference \<and>
   GenerateConfig (Some NodeConfig_zero) None = Inl NilPointerDereference"
  by (simp add: GenerateNodePoolUpdate_def GenerateConfig_def NodeConfig_zero_def
        and_then_def deref_def elems_def)

text \<open>
  C9, amended. \<open>GenerateNodePool\<close> and \<open>GenerateObservation\<close>, which take their input
  by value, return a result for every input and never panic. \<open>GenerateConfig\<close> returns
  for every node config, also one whose accelerator and taint lists hold nil elements,
  when the pool it is to fill is not nil, and leaves that pool not nil; for an absent
  node config it returns with the pool as it was, nil or not.
  \<open>GenerateNodePoolUpdate\<close> returns for every parameter pointer that is not nil,
  whatever optional nested structure is absent. Every optional nested structure and
  every list element the four functions read is read under a nil check.
\<close>

theorem generators_return_on_non_nil:
  "(\<exists>pool. GenerateNodePool inp name = Inr pool) \<and>
   (\<exists>obs. GenerateObservation np = Inr obs) \<and>
   (\<exists>pool'. GenerateConfig cfg (Some pool0) = Inr (Some pool')) \<and>
   GenerateConfig None pool = Inr pool \<and>
   (\<exists>req. GenerateNodePoolUpdate (Some params) = Inr req)"
  using GenerateNodePool_returns [of inp name] GenerateConfig_returns [of cfg pool0]
    GenerateObservation_returns [of np] GenerateNodePoolUpdate_returns [of params]
  by (simp add: returns_iff returns_non_nil_iff GenerateConfig_absent)

section \<open>Late initialization is additive\<close>

lemmas lateinit_helpers = LateInitializeBool_def LateInitializeInt64_def LateInitializeString_def
  LateInitializeStringSlice_def LateInitializeStringMap_def

lemma and_then_InrE:
  assumes "and_then m f = Inr r"
  obtains v where "m = Inr v" and "f v = Inr r"
  using assms by (cases m) (simp_all add: and_then_def)


lemma LateInitializeSpec_Accelerators_result:
  assumes "LateInitializeSpec_Accelerators i xs out = Inr out'"
    and "i + length xs \<le> length out"
  shows "out' = take i out @ map (map_option AcceleratorConfig_of) xs @ drop (i + length xs) out"
  using assms
proof (induction i xs out rule: LateInitializeSpec_Accelerators.induct)
  case (1 i out)
  then show ?case by simp
next
  case (2 i a rest out)
  from "2.prems" obtain a' where a: "a = Some a'"
    by (cases a) (simp_all add: deref_def)
  let ?v = "Some \<lparr>AcceleratorCount = c_AcceleratorCount a',
                   AcceleratorType = c_AcceleratorType a'\<rparr>"
  from "2.prems" a have run: "LateInitializeSpec_Accelerators (Suc i) rest (out[i := ?v]) = Inr out'"
    by (simp add: deref_def)
  from "2.prems" have len: "Suc i + length rest \<le> length (out[i := ?v])" and i: "i < length out"
    by simp_all
  have "out' = take (Suc i) (out[i := ?v]) @ map (map_option AcceleratorConfig_of) rest
                 @ drop (Suc i + length rest) (out[i := ?v])"
    using "2.IH" [OF _ run len] a by (simp add: deref_def)
  moreover have "take (Suc i) (out[i := ?v]) = take i out @ [?v]"
    using i by (simp add: take_Suc_conv_app_nth)
  moreover have "drop (Suc i + length rest) (out[i := ?v]) = drop (i + length (a # rest)) out"
    by simp
  moreover have "?v = map_option AcceleratorConfig_of a"
    using a by (simp add: AcceleratorConfig_of_def)
  ultimately show ?case
    by simp
qed

lemma LateInitializeSpec_Taints_result:
  assumes "LateInitializeSpec_Taints i xs out = Inr out'"
    and "i + length xs \<le> length out"
  shows "out' = take i out @ map (map_option NodeTaint_of) xs @ drop (i + length xs) out"
  using assms
proof (induction i xs out rule: LateInitializeSpec_Taints.induct)
  case (1 i out)
  then show ?case by simp
next
  case (2 i t rest out)
  from "2.prems" obtain t' where t: "t = Some t'"
    by (cases t) (simp_all add: deref_def)
  let ?v = "Some \<lparr>Effect = c_Effect t', Key = c_Key t', Value = c_Value t'\<rparr>"
  from "2.prems" t have run: "LateInitializeSpec_Taints (Suc i) rest (out[i := ?v]) = Inr out'"
    by (simp add: deref_def)
  from "2.prems" have len: "Suc i + length rest \<le> length (out[i := ?v])" and i: "i < length out"
    by simp_all
  have "out' = take (Suc i) (out[i := ?v]) @ map (map_option NodeTaint_of) rest
                 @ drop (Suc i + length rest) (out[i := ?v])"
    using "2.IH" [OF _ run len] t by (simp add: deref_def)
  moreover have "take (Suc i) (out[i := ?v]) = take i out @ [?v]"
    using i by (simp add: take_Suc_conv_app_nth)
  moreover have "drop (Suc i + length rest) (out[i := ?v]) = drop (i + length (t # rest)) out"
    by simp
  moreover have "?v = map_option NodeTaint_of t"
    using t by (simp add: NodeTaint_of_def)
  ultimately show ?case
    by simp
qed

lemma step_Accelerators:
  assumes "(if len ia \<noteq> 0 \<and> len (Accelerators sc) = 0
            then and_then
                   (LateInitializeSpec_Accelerators 0 (elems ia) (replicate (len ia) None))
                   (\<lambda>accs. Inr (sc\<lparr>Accelerators := Some accs\<rparr>))
            else Inr sc) = Inr sc'"
  shows "\<exists>x. sc' = sc\<lparr>Accelerators := x\<rparr> \<and> kept_slice (Accelerators sc) x \<and>
             adopted (Accelerators sc) (Some (map (map_option AcceleratorConfig_of) (elems ia)))
               x (len (Accelerators sc) = 0)"
proof (cases "len ia \<noteq> 0 \<and> len (Accelerators sc) = 0")
  case True
  with assms obtain accs where
    run: "LateInitializeSpec_Accelerators 0 (elems ia) (replicate (len ia) None) = Inr accs"
    and sc': "sc' = sc\<lparr>Accelerators := Some accs\<rparr>"
    by (auto elim!: and_then_InrE)
  have "length (elems ia) = len ia"
    by (simp add: len_def elems_def split: option.splits)
  with LateInitializeSpec_Accelerators_result [OF run]
  have "accs = map (map_option AcceleratorConfig_of) (elems ia)"
    by simp
  with sc' True show ?thesis
    by (intro exI [of _ "Some accs"]) (simp add: kept_slice_def adopted_def)
next
  case False
  with assms have "sc' = sc" by auto
  then show ?thesis
    by (intro exI [of _ "Accelerators sc"]) (simp add: kept_slice_def adopted_def)
qed

lemma step_Taints:
  assumes "(if len it \<noteq> 0 \<and> len (Taints sc) = 0
            then and_then
                   (LateInitializeSpec_Taints 0 (elems it) (replicate (len it) None))
                   (\<lambda>ts. Inr (sc\<lparr>Taints := Some ts\<rparr>))
            else Inr sc) = Inr sc'"
  shows "\<exists>x. sc' = sc\<lparr>Taints := x\<rparr> \<and> kept_slice (Taints sc) x \<and>
             adopted (Taints sc) (Some (map (map_option NodeTaint_of) (elems it)))
               x (len (Taints sc) = 0)"
proof (cases "len it \<noteq> 0 \<and> len (Taints sc) = 0")
  case True
  with assms obtain ts where
    run: "LateInitializeSpec_Taints 0 (elems it) (replicate (len it) None) = Inr ts"
    and sc': "sc' = sc\<lparr>Taints := Some ts\<rparr>"
    by (auto elim!: and_then_InrE)
  have "length (elems it) = len it"
    by (simp add: len_def elems_def split: option.splits)
  with LateInitializeSpec_Taints_result [OF run]
  have "ts = map (map_option NodeTaint_of) (elems it)"
    by simp
  with sc' True show ?thesis
    by (intro exI [of _ "Some ts"]) (simp add: kept_slice_def adopted_def)
next
  case False
  with assms have "sc' = sc" by auto
  then show ?thesis
    by (intro exI [of _ "Taints sc"]) (simp add: kept_slice_def adopted_def)
qed

lemma step_SandboxConfig:
  assumes "(if p \<noteq> None \<and> SandboxConfig sc = None
            then and_then (deref p) (\<lambda>i. Inr (sc\<lparr>SandboxConfig := Some (g i)\<rparr>))
            else Inr sc) = Inr sc'"
  shows "\<exists>x. sc' = sc\<lparr>SandboxConfig := x\<rparr> \<and> kept (SandboxConfig sc) x"
  using assms
  by (intro exI [of _ "SandboxConfig sc'"], cases p)
     (auto simp: and_then_def deref_def kept_def split: if_splits)

lemma step_WorkloadMetadataConfig:
  assumes "(if p \<noteq> None \<and> WorkloadMetadataConfig sc = None
            then and_then (deref p) (\<lambda>i. Inr (sc\<lparr>WorkloadMetadataConfig := Some (g i)\<rparr>))
            else Inr sc) = Inr sc'"
  shows "\<exists>x. sc' = sc\<lparr>WorkloadMetadataConfig := x\<rparr> \<and>
             kept (WorkloadMetadataConfig sc) x"
  using assms
  by (intro exI [of _ "WorkloadMetadataConfig sc'"], cases p)
     (auto simp: and_then_def deref_def kept_def split: if_splits)

lemma step_ShieldedInstanceConfig_frame:
  assumes "(if p \<noteq> None then
               and_then (deref p) (\<lambda>ish.
                 let sc = (if ShieldedInstanceConfig sc = None
                           then sc\<lparr>ShieldedInstanceConfig := Some ShieldedInstanceConfig_zero\<rparr>
                           else sc)
                 in
                 and_then (deref (ShieldedInstanceConfig sc)) (\<lambda>ssh.
                   let ssh = ssh
                         \<lparr>EnableIntegrityMonitoring :=
                            LateInitializeBool (EnableIntegrityMonitoring ssh) (a ish),
                          EnableSecureBoot :=
                            LateInitializeBool (EnableSecureBoot ssh) (b ish)\<rparr>
                   in Inr (sc\<lparr>ShieldedInstanceConfig := Some ssh\<rparr>)))
             else Inr sc) = Inr sc'"
  shows "sc' = sc\<lparr>ShieldedInstanceConfig := ShieldedInstanceConfig sc'\<rparr> \<and>
         kept_nested additive_ShieldedInstanceConfig
           (ShieldedInstanceConfig sc) (ShieldedInstanceConfig sc')"
proof (cases p)
  case None
  with assms have "sc' = sc" by simp
  then show ?thesis
    by (simp add: kept_nested_def additive_ShieldedInstanceConfig_def kept_def
          split: option.splits)
next
  case (Some ish)
  show ?thesis
  proof (cases "ShieldedInstanceConfig sc")
    case None
    with Some assms show ?thesis
      by (auto simp: and_then_def deref_def Let_def kept_nested_def)
  next
    case (Some ssh)
    with \<open>p = Some ish\<close> assms show ?thesis
      by (auto simp: and_then_def deref_def Let_def kept_nested_def
            additive_ShieldedInstanceConfig_def kept_def LateInitializeBool_def)
  qed
qed



lemma step_ShieldedInstanceConfig:
  assumes "(if p \<noteq> None then
               and_then (deref p) (\<lambda>ish.
                 and_then
                   (deref (ShieldedInstanceConfig
                      (if ShieldedInstanceConfig sc = None
                       then sc\<lparr>ShieldedInstanceConfig := Some ShieldedInstanceConfig_zero\<rparr>
                       else sc)))
                   (\<lambda>ssh. Inr
                      ((if ShieldedInstanceConfig sc = None
                        then sc\<lparr>ShieldedInstanceConfig := Some ShieldedInstanceConfig_zero\<rparr>
                        else sc)
                       \<lparr>ShieldedInstanceConfig := Some
                          (ssh\<lparr>EnableIntegrityMonitoring :=
                                 LateInitializeBool (EnableIntegrityMonitoring ssh) (a ish),
                               EnableSecureBoot :=
                                 LateInitializeBool (EnableSecureBoot ssh) (b ish)\<rparr>)\<rparr>)))
             else Inr sc) = Inr sc'"
  shows "\<exists>x. sc' = sc\<lparr>ShieldedInstanceConfig := x\<rparr> \<and>
             kept_nested additive_ShieldedInstanceConfig (ShieldedInstanceConfig sc) x"
  using step_ShieldedInstanceConfig_frame [unfolded Let_def, OF assms]
  by (intro exI [of _ "ShieldedInstanceConfig sc'"])

lemma LateInitializeSpec_Config_fields_additive:
  assumes "LateInitializeSpec_Config_fields sc ic = Inr sc'"
  shows "additive_Config sc sc' \<and> wholesale_Config sc ic sc'"
  using assms unfolding LateInitializeSpec_Config_fields_def Let_def
  apply -
  apply (erule and_then_InrE)
  apply (erule and_then_InrE)
  apply (erule and_then_InrE)
  apply (erule and_then_InrE)
  apply (drule step_Accelerators)
  apply (drule step_SandboxConfig)
  apply (drule step_ShieldedInstanceConfig)
  apply (drule step_Taints)
  apply (drule step_WorkloadMetadataConfig)
  apply (elim exE conjE)
  apply (unfold additive_Config_def wholesale_Config_def)
  apply (intro conjI)
  apply (simp_all add: kept_def kept_slice_def kept_map_def adopted_def lateinit_helpers)
  done


lemma additive_Config_refl: "additive_Config c c"
  by (simp add: additive_Config_def kept_def kept_slice_def kept_map_def kept_nested_def
        additive_ShieldedInstanceConfig_def split: option.splits)

lemma LateInitializeSpec_Autoscaling_additive:
  assumes "LateInitializeSpec_Autoscaling spec inp = Inr spec'"
  shows "\<exists>x. spec' = spec\<lparr>Autoscaling := x\<rparr> \<and>
             kept_nested additive_Autoscaling (Autoscaling spec) x"
  using assms
  by (intro exI [of _ "Autoscaling spec'"])
     (auto simp: LateInitializeSpec_Autoscaling_def and_then_def deref_def Let_def
        kept_nested_def additive_Autoscaling_def kept_def lateinit_helpers
        split: if_splits option.splits)

lemma LateInitializeSpec_Management_additive:
  assumes "LateInitializeSpec_Management spec inp = Inr spec'"
  shows "\<exists>x. spec' = spec\<lparr>Management := x\<rparr> \<and>
             kept_nested additive_Management (Management spec) x"
  using assms
  by (intro exI [of _ "Management spec'"])
     (auto simp: LateInitializeSpec_Management_def and_then_def deref_def Let_def
        kept_nested_def additive_Management_def kept_def lateinit_helpers
        split: if_splits option.splits)

lemma LateInitializeSpec_MaxPodsConstraint_additive:
  assumes "LateInitializeSpec_MaxPodsConstraint spec inp = Inr spec'"
  shows "\<exists>x. spec' = spec\<lparr>MaxPodsConstraint := x\<rparr> \<and> kept (MaxPodsConstraint spec) x"
  using assms
  by (intro exI [of _ "MaxPodsConstraint spec'"])
     (auto simp: LateInitializeSpec_MaxPodsConstraint_def and_then_def deref_def
        kept_def split: if_splits option.splits)

lemma LateInitializeSpec_Config_additive:
  assumes "LateInitializeSpec_Config spec inp = Inr spec'"
  shows "\<exists>x. spec' = spec\<lparr>Config := x\<rparr> \<and>
             kept_nested additive_Config (Config spec) x \<and>
             (case c_Config inp of
                None \<Rightarrow> x = Config spec
              | Some ic \<Rightarrow>
                  (case x of
                     None \<Rightarrow> False
                   | Some sc' \<Rightarrow> wholesale_Config (Config_or_zero spec) ic sc'))"
proof (cases "c_Config inp")
  case None
  with assms have "spec' = spec"
    by (simp add: LateInitializeSpec_Config_def)
  with None show ?thesis
    by (intro exI [of _ "Config spec"])
       (simp add: kept_nested_def additive_Config_refl split: option.splits)
next
  case (Some ic)
  let ?sc = "Config_or_zero spec"
  from assms Some obtain sc' where
    fields: "LateInitializeSpec_Config_fields ?sc ic = Inr sc'"
    and spec': "spec' = spec\<lparr>Config := Some sc'\<rparr>"
    by (cases "Config spec")
       (auto simp: LateInitializeSpec_Config_def Config_or_zero_def deref_def Let_def
          and_then_def [of "Inr _"] elim!: and_then_InrE)
  from LateInitializeSpec_Config_fields_additive [OF fields]
  have "additive_Config ?sc sc'" and "wholesale_Config ?sc ic sc'"
    by simp_all
  with Some spec' show ?thesis
    by (intro exI [of _ "Some sc'"])
       (simp add: kept_nested_def Config_or_zero_def split: option.splits)
qed

lemma LateInitializeSpec_frame:
  assumes "LateInitializeSpec spec inp = Inr spec'"
  shows "\<exists>a c m p.
           spec' = spec
             \<lparr>Autoscaling := a, Config := c,
              InitialNodeCount :=
                LateInitializeInt64 (InitialNodeCount spec) (c_InitialNodeCount inp),
              Locations := LateInitializeStringSlice (Locations spec) (c_Locations inp),
              Management := m, MaxPodsConstraint := p,
              Version := LateInitializeString (Version spec) (c_Version inp)\<rparr> \<and>
           kept_nested additive_Autoscaling (Autoscaling spec) a \<and>
           kept_nested additive_Config (Config spec) c \<and>
           (case c_Config inp of
              None \<Rightarrow> c = Config spec
            | Some ic \<Rightarrow>
                (case c of
                   None \<Rightarrow> False
                 | Some sc' \<Rightarrow> wholesale_Config (Config_or_zero spec) ic sc')) \<and>
           kept_nested additive_Management (Management spec) m \<and>
           kept (MaxPodsConstraint spec) p"
proof -
  from assms obtain s1 s2 s3 s4 where
    r1: "LateInitializeSpec_Autoscaling spec inp = Inr s1"
    and r2: "LateInitializeSpec_Config s1 inp = Inr s2"
    and r3: "LateInitializeSpec_Management
               (s2\<lparr>InitialNodeCount :=
                      LateInitializeInt64 (InitialNodeCount s2) (c_InitialNodeCount inp),
                    Locations := LateInitializeStringSlice (Locations s2) (c_Locations inp)\<rparr>)
               inp = Inr s3"
    and r4: "LateInitializeSpec_MaxPodsConstraint s3 inp = Inr s4"
    and r5: "spec' = s4\<lparr>Version := LateInitializeString (Version s4) (c_Version inp)\<rparr>"
    unfolding LateInitializeSpec_def Let_def
    by (auto elim!: and_then_InrE)
  from LateInitializeSpec_Autoscaling_additive [OF r1] obtain a where
    s1: "s1 = spec\<lparr>Autoscaling := a\<rparr>"
    and a: "kept_nested additive_Autoscaling (Autoscaling spec) a"
    by blast
  from LateInitializeSpec_Config_additive [OF r2] obtain c where
    s2: "s2 = s1\<lparr>Config := c\<rparr>"
    and c: "kept_nested additive_Config (Config s1) c"
    and w: "case c_Config inp of
              None \<Rightarrow> c = Config s1
            | Some ic \<Rightarrow>
                (case c of
                   None \<Rightarrow> False
                 | Some sc' \<Rightarrow> wholesale_Config (Config_or_zero s1) ic sc')"
    by blast
  from LateInitializeSpec_Management_additive [OF r3] obtain m where
    s3: "s3 = s2\<lparr>InitialNodeCount :=
                      LateInitializeInt64 (InitialNodeCount s2) (c_InitialNodeCount inp),
                    Locations := LateInitializeStringSlice (Locations s2) (c_Locations inp),
                    Management := m\<rparr>"
    and m: "kept_nested additive_Management (Management s2) m"
    by auto
  from LateInitializeSpec_MaxPodsConstraint_additive [OF r4] obtain p where
    s4: "s4 = s3\<lparr>MaxPodsConstraint := p\<rparr>"
    and p: "kept (MaxPodsConstraint s3) p"
    by blast
  have "Config s1 = Config spec" and "Config_or_zero s1 = Config_or_zero spec"
    by (simp_all add: s1 Config_or_zero_def)
  with c w have c': "kept_nested additive_Config (Config spec) c"
    and w': "case c_Config inp of
               None \<Rightarrow> c = Config spec
             | Some ic \<Rightarrow>
                 (case c of
                    None \<Rightarrow> False
                  | Some sc' \<Rightarrow> wholesale_Config (Config_or_zero spec) ic sc')"
    by (simp_all split: option.splits)
  have "spec' = spec
          \<lparr>Autoscaling := a, Config := c,
           InitialNodeCount :=
             LateInitializeInt64 (InitialNodeCount spec) (c_InitialNodeCount inp),
           Locations := LateInitializeStringSlice (Locations spec) (c_Locations inp),
           Management := m, MaxPodsConstraint := p,
           Version := LateInitializeString (Version spec) (c_Version inp)\<rparr>"
    by (simp add: r5 s4 s3 s2 s1)
  moreover have "kept_nested additive_Management (Management spec) m"
    using m by (simp add: s2 s1)
  moreover have "kept (MaxPodsConstraint spec) p"
    using p by (simp add: s3 s2 s1)
  ultimately show ?thesis
    using a c' w' by blast
qed


lemma LateInitializeSpec_Cluster:
  assumes "LateInitializeSpec spec inp = Inr spec'"
  shows "Cluster spec' = Cluster spec"
  using LateInitializeSpec_frame [OF assms] by auto

lemmas nodepool_defs =
  LateInitializeSpec_def LateInitializeSpec_Autoscaling_def LateInitializeSpec_Config_def
  LateInitializeSpec_Config_fields_def LateInitializeSpec_Management_def
  LateInitializeSpec_MaxPodsConstraint_def
  NodePoolParameters_zero_def NodeConfig_zero_def NodePoolAutoscaling_zero_def
  NodeManagementSpec_zero_def ShieldedInstanceConfig_zero_def
  and_then_def deref_def len_def elems_def len_map_def Let_def


lemma LateInitializeSpec_zero_example:
  "LateInitializeSpec NodePoolParameters_zero example_observed = Inr example_current"
  by (simp add: example_observed_def example_current_def nodepool_defs lateinit_helpers)


section \<open>When late initialization returns\<close>

text \<open>
  \<open>LateInitializeSpec\<close>, and \<open>IsUpToDate\<close> which calls it, return for every observed
  node pool whose accelerator and taint lists hold no nil element, and panic on the
  first nil element they copy.
\<close>

lemma LateInitializeSpec_Accelerators_returns:
  "None \<notin> set xs \<Longrightarrow> returns (LateInitializeSpec_Accelerators i xs out)"
  by (induction i xs out rule: LateInitializeSpec_Accelerators.induct)
     (auto simp: deref_def returns_Inr split: option.splits)

lemma LateInitializeSpec_Taints_returns:
  "None \<notin> set xs \<Longrightarrow> returns (LateInitializeSpec_Taints i xs out)"
  by (induction i xs out rule: LateInitializeSpec_Taints.induct)
     (auto simp: deref_def returns_Inr split: option.splits)

lemma returns_if: "returns a \<Longrightarrow> returns b \<Longrightarrow> returns (if c then a else b)"
  by simp

lemma returns_guarded_deref2:
  "(\<And>v. returns (f v)) \<Longrightarrow> returns g \<Longrightarrow>
   returns (if p \<noteq> None \<and> q then and_then (deref p) f else g)"
  by (cases p) (simp_all add: and_then_def deref_def)

lemma returns_ensured_deref:
  "(\<And>v. returns (f v)) \<Longrightarrow>
   returns (and_then (deref (ShieldedInstanceConfig
       (if ShieldedInstanceConfig sc = None
        then sc\<lparr>ShieldedInstanceConfig := Some z\<rparr> else sc))) f)"
  by (cases "ShieldedInstanceConfig sc") (simp_all add: and_then_def deref_def)

lemma LateInitializeSpec_Config_fields_returns:
  assumes "None \<notin> set (elems (c_Accelerators ic))" and "None \<notin> set (elems (c_Taints ic))"
  shows "returns (LateInitializeSpec_Config_fields sc ic)"
  unfolding LateInitializeSpec_Config_fields_def Let_def
  by (intro returns_and_then returns_if returns_guarded_deref returns_guarded_deref2
        returns_ensured_deref returns_Inr
        LateInitializeSpec_Accelerators_returns LateInitializeSpec_Taints_returns assms)

lemma LateInitializeSpec_Autoscaling_returns:
  "returns (LateInitializeSpec_Autoscaling spec inp)"
  by (cases "c_Autoscaling inp"; cases "Autoscaling spec")
     (simp_all add: LateInitializeSpec_Autoscaling_def and_then_def deref_def Let_def
        returns_Inr)

lemma LateInitializeSpec_Management_returns:
  "returns (LateInitializeSpec_Management spec inp)"
  by (cases "c_Management inp"; cases "Management spec")
     (simp_all add: LateInitializeSpec_Management_def and_then_def deref_def Let_def
        returns_Inr)

lemma LateInitializeSpec_MaxPodsConstraint_returns:
  "returns (LateInitializeSpec_MaxPodsConstraint spec inp)"
  unfolding LateInitializeSpec_MaxPodsConstraint_def
  by (intro returns_guarded_deref2 returns_Inr)

lemma LateInitializeSpec_Config_returns:
  assumes "\<And>ic. c_Config inp = Some ic \<Longrightarrow>
             None \<notin> set (elems (c_Accelerators ic)) \<and> None \<notin> set (elems (c_Taints ic))"
  shows "returns (LateInitializeSpec_Config spec inp)"
proof (cases "c_Config inp")
  case None
  then show ?thesis
    by (simp add: LateInitializeSpec_Config_def returns_Inr)
next
  case (Some ic)
  with assms have "\<And>sc. returns (LateInitializeSpec_Config_fields sc ic)"
    by (simp add: LateInitializeSpec_Config_fields_returns)
  then have "\<And>sc spec'. returns (and_then (LateInitializeSpec_Config_fields sc ic)
      (\<lambda>sc. Inr (spec'\<lparr>Config := Some sc\<rparr>)))"
    by (intro returns_and_then returns_Inr)
  with Some show ?thesis
    by (cases "Config spec")
       (simp_all add: LateInitializeSpec_Config_def deref_def Let_def and_then_def [of "Inr _"])
qed

lemma LateInitializeSpec_returns:
  assumes "\<And>ic. c_Config inp = Some ic \<Longrightarrow>
             None \<notin> set (elems (c_Accelerators ic)) \<and> None \<notin> set (elems (c_Taints ic))"
  shows "returns (LateInitializeSpec spec inp)"
  unfolding LateInitializeSpec_def Let_def
  by (intro returns_and_then returns_Inr LateInitializeSpec_Autoscaling_returns
        LateInitializeSpec_Config_returns LateInitializeSpec_Management_returns
        LateInitializeSpec_MaxPodsConstraint_returns assms)

lemma LateInitializeSpec_nil_element_panics:
  "LateInitializeSpec NodePoolParameters_zero
     (c_NodePool_zero\<lparr>c_Config := Some (c_NodeConfig_zero\<lparr>c_Accelerators := Some [None]\<rparr>)\<rparr>) =
     Inl NilPointerDereference \<and>
   IsUpToDate inp
     (c_NodePool_zero\<lparr>c_Config := Some (c_NodeConfig_zero\<lparr>c_Accelerators := Some [None]\<rparr>)\<rparr>) =
     Inl NilPointerDereference"
  by (simp add: IsUpToDate_def nodepool_defs c_NodePool_zero_def c_NodeConfig_zero_def)

section \<open>Properties of the drift classifier\<close>

lemma IsUpToDate_eq:
  assumes "LateInitializeSpec NodePoolParameters_zero currentState = Inr currentParams"
  shows "IsUpToDate inp currentState =
           Inr (if Autoscaling inp \<noteq> Autoscaling currentParams then (False, AutoscalingUpdate)
                else if Management inp \<noteq> Management currentParams then (False, ManagementUpdate)
                else if inp \<noteq> currentParams then (False, GeneralUpdate)
                else (True, NoUpdate))"
  by (simp add: IsUpToDate_def assms and_then_def cmp_Equal_def)

text \<open>
  C1. For every desired spec and every observed node pool from which the current spec
  can be reconstructed: if the desired autoscaling differs from the reconstructed one,
  \<open>IsUpToDate\<close> returns \<open>(false, AutoscalingUpdate)\<close>, whatever else differs; and in
  general the result is the classification of the spec, the first category that
  differs in the order autoscaling, management, everything, one classification per
  call.
\<close>

theorem IsUpToDate_first_difference_wins:
  assumes "LateInitializeSpec NodePoolParameters_zero currentState = Inr currentParams"
  shows "(Autoscaling inp \<noteq> Autoscaling currentParams \<longrightarrow>
            IsUpToDate inp currentState = Inr (False, AutoscalingUpdate)) \<and>
         IsUpToDate inp currentState = Inr (Classify inp currentParams)"
  by (simp add: IsUpToDate_eq [OF assms] Classify_def first_differing_def)

theorem IsUpToDate_first_difference_wins_witness:
  "LateInitializeSpec NodePoolParameters_zero example_observed = Inr example_current \<and>
   Autoscaling example_spec \<noteq> Autoscaling example_current \<and>
   Management example_spec \<noteq> Management example_current \<and>
   Version example_spec \<noteq> Version example_current \<and>
   IsUpToDate example_spec example_observed = Inr (False, AutoscalingUpdate) \<and>
   Classify example_spec example_current = (False, AutoscalingUpdate)"
proof -
  note wins = IsUpToDate_first_difference_wins
    [OF LateInitializeSpec_zero_example, of example_spec]
  have a: "Autoscaling example_spec \<noteq> Autoscaling example_current"
    and m: "Management example_spec \<noteq> Management example_current"
    and v: "Version example_spec \<noteq> Version example_current"
    by (simp_all add: example_spec_def example_current_def)
  from wins a have run: "IsUpToDate example_spec example_observed = Inr (False, AutoscalingUpdate)"
    by blast
  with wins have "Classify example_spec example_current = (False, AutoscalingUpdate)"
    by simp
  with LateInitializeSpec_zero_example a m v run show ?thesis
    by simp
qed

text \<open>
  C10. Whenever \<open>IsUpToDate\<close> returns, its boolean is true exactly when the kind is
  \<open>NoUpdate\<close>, and the kind is one of \<open>NoUpdate\<close>, \<open>AutoscalingUpdate\<close>,
  \<open>ManagementUpdate\<close> and \<open>GeneralUpdate\<close>: \<open>SizeUpdate\<close> is never returned.
\<close>

theorem IsUpToDate_flag_matches_kind:
  assumes "IsUpToDate inp currentState = Inr (upToDate, kind)"
  shows "(upToDate \<longleftrightarrow> kind = NoUpdate) \<and>
         kind \<in> {NoUpdate, AutoscalingUpdate, ManagementUpdate, GeneralUpdate} \<and>
         kind \<noteq> SizeUpdate"
proof -
  from assms obtain currentParams where
    "LateInitializeSpec NodePoolParameters_zero currentState = Inr currentParams"
    unfolding IsUpToDate_def by (auto elim: and_then_InrE)
  from IsUpToDate_eq [OF this, of inp] assms show ?thesis
    by (auto split: if_splits)
qed

theorem IsUpToDate_flag_matches_kind_witness:
  "IsUpToDate example_current example_observed = Inr (True, NoUpdate) \<and>
   (True \<longleftrightarrow> NoUpdate = NoUpdate) \<and>
   NoUpdate \<in> {NoUpdate, AutoscalingUpdate, ManagementUpdate, GeneralUpdate} \<and>
   NoUpdate \<noteq> SizeUpdate"
proof -
  have run: "IsUpToDate example_current example_observed = Inr (True, NoUpdate)"
    by (simp add: IsUpToDate_eq [OF LateInitializeSpec_zero_example])
  from IsUpToDate_flag_matches_kind [OF run] run show ?thesis
    by simp
qed

lemma GenerateNodePool_absent_optionals:
  assumes "Autoscaling inp = None" and "Config inp = None" and "Management inp = None"
    and "MaxPodsConstraint inp = None"
  shows "GenerateNodePool inp name =
           Inr (c_NodePool_zero
             \<lparr>c_InitialNodeCount := Int64Value (InitialNodeCount inp),
              c_Locations := Locations inp,
              c_Name := name,
              c_Version := StringValue (Version inp)\<rparr>)"
  using assms
  by (simp add: GenerateNodePool_def GenerateAutoscaling_def GenerateConfig_def
        GenerateManagement_def GenerateMaxPodsConstraint_def and_then_def deref_def)

lemma IsUpToDate_Cluster_set:
  assumes "Cluster inp \<noteq> None"
  shows "IsUpToDate inp currentState \<noteq> Inr (True, NoUpdate)"
proof
  assume run: "IsUpToDate inp currentState = Inr (True, NoUpdate)"
  then obtain currentParams where
    cp: "LateInitializeSpec NodePoolParameters_zero currentState = Inr currentParams"
    unfolding IsUpToDate_def by (auto elim: and_then_InrE)
  from LateInitializeSpec_Cluster [OF cp] have "Cluster currentParams = None"
    by (simp add: NodePoolParameters_zero_def)
  with assms have "inp \<noteq> currentParams" by auto
  with IsUpToDate_eq [OF cp, of inp] run show False
    by (simp split: if_splits)
qed

text \<open>
  C4. The round trip at \<open>example_plain\<close>, a desired node pool attached to a cluster
  with every optional sub-structure absent: \<open>GenerateNodePool\<close> sets none of the four
  optional fields of the pool it builds, yet \<open>IsUpToDate\<close> on the spec and that pool
  answers \<open>(false, GeneralUpdate)\<close>. The same spec without its \<open>Cluster\<close> is up to
  date: late initialization never fills \<open>Cluster\<close>, and the last comparison of
  \<open>IsUpToDate\<close> is over the whole struct.
\<close>

theorem IsUpToDate_round_trip_with_Cluster:
  "\<exists>pool. GenerateNodePool example_plain ''pool'' = Inr pool \<and>
      c_Autoscaling pool = None \<and> c_Config pool = None \<and>
      c_Management pool = None \<and> c_MaxPodsConstraint pool = None \<and>
      IsUpToDate example_plain pool = Inr (False, GeneralUpdate) \<and>
      IsUpToDate (example_plain\<lparr>Cluster := None\<rparr>) pool = Inr (True, NoUpdate)"
proof -
  let ?pool = "c_NodePool_zero
     \<lparr>c_InitialNodeCount := 3, c_Locations := Some [''us-central1-a''],
      c_Name := ''pool'', c_Version := ''1.14.8''\<rparr>"
  have gen: "GenerateNodePool example_plain ''pool'' = Inr ?pool"
    by (simp add: GenerateNodePool_absent_optionals example_plain_def
          Int64Value_def StringValue_def)
  have cur: "LateInitializeSpec NodePoolParameters_zero ?pool =
               Inr (example_plain\<lparr>Cluster := None\<rparr>)"
    by (simp add: example_plain_def c_NodePool_zero_def nodepool_defs lateinit_helpers)
  have "IsUpToDate example_plain ?pool = Inr (False, GeneralUpdate)"
    by (simp add: IsUpToDate_eq [OF cur] example_plain_def)
  moreover have "IsUpToDate (example_plain\<lparr>Cluster := None\<rparr>) ?pool = Inr (True, NoUpdate)"
    by (simp add: IsUpToDate_eq [OF cur])
  ultimately show ?thesis
    using gen by (simp add: c_NodePool_zero_def)
qed

section \<open>Properties of the controller\<close>

lemmas error_defs = errors_New_def errors_Wrap_def Ignore_def IsErrorNotFound_def

lemmas example_defs = example_gke_def example_cr_def example_service_def example_kube_def
  example_external_def growing_external_def

text \<open>
  C8. Handed an object that is not a \<open>GKECluster\<close>, each of \<open>Connect\<close>, \<open>Observe\<close>,
  \<open>Create\<close>, \<open>Update\<close> and \<open>Delete\<close> returns the type-mismatch error at once: the log
  of remote calls is the one it was given, so no call was made, and the object is
  returned as it was given.
\<close>

theorem type_mismatch_is_immediate:
  "Connect c calls (OtherManaged kind) =
     Inr \<lparr>res_value = None, res_error = Some (New errNotCluster),
          res_managed = OtherManaged kind, res_calls = calls\<rparr> \<and>
   Observe g e calls (OtherManaged kind) =
     \<lparr>res_value = ExternalObservation_zero, res_error = Some (New errNotCluster),
      res_managed = OtherManaged kind, res_calls = calls\<rparr> \<and>
   Create g e calls (OtherManaged kind) =
     \<lparr>res_value = ExternalCreation_zero, res_error = Some (New errNotCluster),
      res_managed = OtherManaged kind, res_calls = calls\<rparr> \<and>
   Update g e calls (OtherManaged kind) =
     \<lparr>res_value = ExternalUpdate_zero, res_error = Some (New errNotCluster),
      res_managed = OtherManaged kind, res_calls = calls\<rparr> \<and>
   Delete e calls (OtherManaged kind) =
     \<lparr>res_value = (), res_error = Some (New errNotCluster),
      res_managed = OtherManaged kind, res_calls = calls\<rparr>"
  by (simp add: Connect_def Observe_def Create_def Update_def Delete_def errors_New_def)

text \<open>
  C6. Deleting a cluster that is already gone succeeds: for every \<open>GKECluster\<close>, when
  the provider's delete call answers with the not-found error, \<open>Delete\<close> returns no
  error; every other error of the delete call is returned wrapped with the message of
  the delete operation.
\<close>

theorem Delete_not_found_is_success:
  "(Clusters_Delete_Do (cluster e) calls (ExternalName cr) = Some NotFoundError \<longrightarrow>
      res_error (Delete e calls (GKEClusterManaged cr)) = None) \<and>
   (\<forall>err. Clusters_Delete_Do (cluster e) calls (ExternalName cr) = Some err \<and>
          err \<noteq> NotFoundError \<longrightarrow>
      res_error (Delete e calls (GKEClusterManaged cr)) = Some (Wrap err errDeleteCluster))"
  by (simp add: Delete_def Let_def error_defs)

theorem Delete_not_found_is_success_witness:
  "res_error (Delete (example_external (Inr (''RUNNING'', 3)) None (Some NotFoundError)) []
      (GKEClusterManaged (example_cr (Some 3)))) = None \<and>
   res_error (Delete (example_external (Inr (''RUNNING'', 3)) None (Some (ProviderAPIError ''quota''))) []
      (GKEClusterManaged (example_cr (Some 3)))) =
     Some (Wrap (ProviderAPIError ''quota'') errDeleteCluster)"
proof -
  have "Clusters_Delete_Do (cluster (example_external (Inr (''RUNNING'', 3)) None (Some NotFoundError))) []
          (ExternalName (example_cr (Some 3))) = Some NotFoundError"
    by (simp add: example_defs)
  moreover have
    "Clusters_Delete_Do
       (cluster (example_external (Inr (''RUNNING'', 3)) None (Some (ProviderAPIError ''quota'')))) []
       (ExternalName (example_cr (Some 3))) = Some (ProviderAPIError ''quota'') \<and>
     ProviderAPIError ''quota'' \<noteq> NotFoundError"
    by (simp add: example_defs)
  ultimately show ?thesis
    using Delete_not_found_is_success
            [of "example_external (Inr (''RUNNING'', 3)) None (Some NotFoundError)" "[]"
                "example_cr (Some 3)"]
          Delete_not_found_is_success
            [of "example_external (Inr (''RUNNING'', 3)) None (Some (ProviderAPIError ''quota''))" "[]"
                "example_cr (Some 3)"]
    by blast
qed


text \<open>
  C2, as claimed, fails. In a cycle in which \<open>Observe\<close> finds the cluster out of date,
  the \<open>Update\<close> that follows reads the cluster again before the update call: the log
  holds two \<open>Get\<close>s and then the update. With a provider whose cluster changes between
  the two reads, \<open>Update\<close> follows its own read, not the one of \<open>Observe\<close>: it finds the
  cluster up to date and makes no update call.
\<close>

theorem Update_second_Get_counterexample:
  "res_calls
     (Update example_gke (example_external (Inr (''RUNNING'', 3)) None None)
        (res_calls (Observe example_gke (example_external (Inr (''RUNNING'', 3)) None None) []
           (GKEClusterManaged (example_cr (Some 4)))))
        (res_managed (Observe example_gke (example_external (Inr (''RUNNING'', 3)) None None) []
           (GKEClusterManaged (example_cr (Some 4)))))) =
     [Clusters_Get ''gke-example'', Clusters_Get ''gke-example'', Clusters_Update (Some 4)] \<and>
   ResourceUpToDate (res_value
     (Observe example_gke growing_external [] (GKEClusterManaged (example_cr (Some 5))))) = False \<and>
   res_calls
     (Update example_gke growing_external
        (res_calls (Observe example_gke growing_external []
           (GKEClusterManaged (example_cr (Some 5)))))
        (res_managed (Observe example_gke growing_external []
           (GKEClusterManaged (example_cr (Some 5)))))) =
     [Clusters_Get ''gke-example'', Clusters_Get ''gke-example'']"
  by (simp add: Observe_def Update_def Observe_conditions_def example_defs Let_def
        SetBindable_def SetCondition_def ClusterStateRunning_def)

text \<open>
  C2, amended. For every \<open>GKECluster\<close>, \<open>Update\<close> first makes its own remote \<open>Get\<close> of
  the cluster. It makes no other call when that \<open>Get\<close> fails or when \<open>gke.IsUpToDate\<close>
  finds the fetched cluster up to date; otherwise it makes one more call, the update
  function \<open>gke.IsUpToDate\<close> chose for the cluster it has just fetched.
\<close>

theorem Update_fetches_again:
  "res_calls (Update g e calls (GKEClusterManaged cr)) =
     calls @ Clusters_Get (ExternalName cr) #
       (case Clusters_Get_Do (cluster e) calls (ExternalName cr) of
          Inl err \<Rightarrow> []
        | Inr existing \<Rightarrow>
            if fst (gke_IsUpToDate g (ForProvider (Spec cr)) existing) then []
            else [Clusters_Update (snd (gke_IsUpToDate g (ForProvider (Spec cr)) existing))])"
  by (simp add: Update_def Let_def split: sum.splits prod.splits)

text \<open>
  C5, as claimed, fails. When the store refuses the late-initialized spec, \<open>Observe\<close>
  returns the wrapped error, and the status of the resource it leaves behind already
  holds the new observation.
\<close>

theorem Observe_error_status_counterexample:
  "res_error (Observe example_gke
      (example_external (Inr (''RUNNING'', 3)) (Some (StoreError ''conflict'')) None) []
      (GKEClusterManaged (example_cr None))) =
     Some (Wrap (StoreError ''conflict'') errManagedUpdateFailed) \<and>
   res_managed (Observe example_gke
      (example_external (Inr (''RUNNING'', 3)) (Some (StoreError ''conflict'')) None) []
      (GKEClusterManaged (example_cr None))) =
     GKEClusterManaged ((example_cr (Some 3))
       \<lparr>Status := (Status (example_cr None))
          \<lparr>AtProvider := \<lparr>cluster_Status = ''RUNNING''\<rparr>\<rparr>\<rparr>) \<and>
   Status ((example_cr (Some 3))
       \<lparr>Status := (Status (example_cr None))
          \<lparr>AtProvider := \<lparr>cluster_Status = ''RUNNING''\<rparr>\<rparr>\<rparr>) \<noteq> Status (example_cr None)"
  by (simp add: Observe_def example_defs Let_def error_defs)

text \<open>
  C5, amended. Whenever \<open>Observe\<close> returns an error: an object of another kind is
  left as it was; a \<open>GKECluster\<close> whose remote \<open>Get\<close> failed is left as it was; and a
  \<open>GKECluster\<close> that was fetched is left with \<open>Status.AtProvider\<close> replaced by the
  observation of the fetched cluster and \<open>Spec.ForProvider\<close> late-initialized, its
  conditions and binding phase untouched: the error is then the failure to persist a
  spec that late initialization changed, and the last remote call is that write.
\<close>

theorem Observe_error_managed_resource:
  assumes "res_error (Observe g e calls mg) \<noteq> None"
  shows "(\<forall>kind. mg = OtherManaged kind \<longrightarrow> res_managed (Observe g e calls mg) = mg) \<and>
         (\<forall>cr err. mg = GKEClusterManaged cr \<and>
              Clusters_Get_Do (cluster e) calls (ExternalName cr) = Inl err \<longrightarrow>
            res_managed (Observe g e calls mg) = mg) \<and>
         (\<forall>cr existing. mg = GKEClusterManaged cr \<and>
              Clusters_Get_Do (cluster e) calls (ExternalName cr) = Inr existing \<longrightarrow>
            res_managed (Observe g e calls mg) =
              GKEClusterManaged
                (cr\<lparr>Status := (Status cr)
                      \<lparr>AtProvider := gke_GenerateObservation g existing\<rparr>,
                    Spec := (Spec cr)
                      \<lparr>ForProvider :=
                         gke_LateInitializeSpec g (ForProvider (Spec cr)) existing\<rparr>\<rparr>) \<and>
            gke_LateInitializeSpec g (ForProvider (Spec cr)) existing \<noteq> ForProvider (Spec cr) \<and>
            (\<exists>cr'. last (res_calls (Observe g e calls mg)) = Kube_Update cr'))"
  using assms
  by (auto simp: Observe_def Let_def split: sum.splits if_splits)


theorem Observe_error_managed_resource_witness:
  "res_error (Observe example_gke
      (example_external (Inl (ProviderAPIError ''unavailable'')) None None) []
      (GKEClusterManaged (example_cr None))) \<noteq> None \<and>
   res_managed (Observe example_gke
      (example_external (Inl (ProviderAPIError ''unavailable'')) None None) []
      (GKEClusterManaged (example_cr None))) = GKEClusterManaged (example_cr None) \<and>
   res_error (Observe example_gke
      (example_external (Inr (''RUNNING'', 3)) (Some (StoreError ''conflict'')) None) []
      (GKEClusterManaged (example_cr None))) \<noteq> None \<and>
   res_managed (Observe example_gke
      (example_external (Inr (''RUNNING'', 3)) (Some (StoreError ''conflict'')) None) []
      (GKEClusterManaged (example_cr None))) =
     GKEClusterManaged ((example_cr (Some 3))
       \<lparr>Status := (Status (example_cr None))
          \<lparr>AtProvider := \<lparr>cluster_Status = ''RUNNING''\<rparr>\<rparr>\<rparr>) \<and>
   res_error (Observe example_gke (example_external (Inr (''RUNNING'', 3)) None None) []
      (OtherManaged ''Bucket'')) \<noteq> None \<and>
   res_managed (Observe example_gke (example_external (Inr (''RUNNING'', 3)) None None) []
      (OtherManaged ''Bucket'')) = OtherManaged ''Bucket''"
proof -
  let ?down = "example_external (Inl (ProviderAPIError ''unavailable'')) None None"
  let ?conflict = "example_external (Inr (''RUNNING'', 3)) (Some (StoreError ''conflict'')) None"
  let ?fine = "example_external (Inr (''RUNNING'', 3)) None None"
  let ?mg = "GKEClusterManaged (example_cr None)"
  have e1: "res_error (Observe example_gke ?down [] ?mg) \<noteq> None"
    and e2: "res_error (Observe example_gke ?conflict [] ?mg) \<noteq> None"
    and e3: "res_error (Observe example_gke ?fine [] (OtherManaged ''Bucket'')) \<noteq> None"
    by (simp_all add: Observe_def example_defs Let_def error_defs)
  have g1: "Clusters_Get_Do (cluster ?down) [] (ExternalName (example_cr None)) =
              Inl (ProviderAPIError ''unavailable'')"
    and g2: "Clusters_Get_Do (cluster ?conflict) [] (ExternalName (example_cr None)) =
              Inr (''RUNNING'', 3)"
    by (simp_all add: example_defs)
  from Observe_error_managed_resource [OF e1] g1
  have "res_managed (Observe example_gke ?down [] ?mg) = ?mg"
    by blast
  moreover from Observe_error_managed_resource [OF e2] g2
  have "res_managed (Observe example_gke ?conflict [] ?mg) =
          GKEClusterManaged
            ((example_cr None)
               \<lparr>Status := (Status (example_cr None))
                  \<lparr>AtProvider := gke_GenerateObservation example_gke (''RUNNING'', 3)\<rparr>,
                Spec := (Spec (example_cr None))
                  \<lparr>ForProvider :=
                     gke_LateInitializeSpec example_gke (ForProvider (Spec (example_cr None)))
                       (''RUNNING'', 3)\<rparr>\<rparr>)"
    by blast
  then have "res_managed (Observe example_gke ?conflict [] ?mg) =
          GKEClusterManaged ((example_cr (Some 3))
            \<lparr>Status := (Status (example_cr None))
               \<lparr>AtProvider := \<lparr>cluster_Status = ''RUNNING''\<rparr>\<rparr>\<rparr>)"
    by (simp add: example_gke_def example_cr_def)
  moreover from Observe_error_managed_resource [OF e3]
  have "res_managed (Observe example_gke ?fine [] (OtherManaged ''Bucket'')) =
          OtherManaged ''Bucket''"
    by blast
  ultimately show ?thesis
    using e1 e2 e3 by blast
qed

lemma ready_conditions_SetCondition:
  assumes "cond_Type new = TypeReady"
  shows "{c \<in> set (SetCondition cs new). cond_Type c = TypeReady} = {new}"
  using assms by (auto simp: SetCondition_def)

lemma ready_conditions_SetBindable [simp]:
  "ready_conditions (SetBindable cr) = ready_conditions cr"
  by (simp add: ready_conditions_def SetBindable_def)

lemma bindable_SetBindable [simp]: "bindable (SetBindable cr)"
  by (simp add: bindable_def SetBindable_def)

lemmas ClusterState_defs =
  ClusterStateRunning_def ClusterStateProvisioning_def ClusterStateUnspecified_def
  ClusterStateDegraded_def ClusterStateError_def ClusterStateReconciling_def

lemma Observe_conditions_Running:
  assumes "cluster_Status (AtProvider (Status cr)) = ClusterStateRunning"
  shows "Observe_conditions cr =
           SetBindable
             (cr\<lparr>Status := (Status cr)
                \<lparr>Conditions := SetCondition (Conditions (Status cr)) Available\<rparr>\<rparr>)"
  using assms by (simp add: Observe_conditions_def)

lemma Observe_conditions_Provisioning:
  assumes "cluster_Status (AtProvider (Status cr)) = ClusterStateProvisioning"
  shows "Observe_conditions cr =
           cr\<lparr>Status := (Status cr)
             \<lparr>Conditions := SetCondition (Conditions (Status cr)) Creating\<rparr>\<rparr>"
  using assms by (simp add: Observe_conditions_def ClusterState_defs)

lemma Observe_conditions_Unavailable:
  assumes "cluster_Status (AtProvider (Status cr)) \<in>
             {ClusterStateUnspecified, ClusterStateDegraded, ClusterStateError,
              ClusterStateReconciling}"
  shows "Observe_conditions cr =
           cr\<lparr>Status := (Status cr)
             \<lparr>Conditions := SetCondition (Conditions (Status cr)) Unavailable\<rparr>\<rparr>"
  using assms by (auto simp: Observe_conditions_def ClusterState_defs)

lemma ready_conditions_set:
  assumes "cond_Type new = TypeReady"
  shows "ready_conditions
           (cr\<lparr>Status := (Status cr)
              \<lparr>Conditions := SetCondition (Conditions (Status cr)) new\<rparr>\<rparr>) = {new}"
  using assms by (simp add: ready_conditions_def ready_conditions_SetCondition)

lemma Observe_conditions_table:
  "(cluster_Status (AtProvider (Status cr)) = ClusterStateRunning \<longrightarrow>
      ready_conditions (Observe_conditions cr) = {Available} \<and>
      bindable (Observe_conditions cr)) \<and>
   (cluster_Status (AtProvider (Status cr)) = ClusterStateProvisioning \<longrightarrow>
      ready_conditions (Observe_conditions cr) = {Creating}) \<and>
   (cluster_Status (AtProvider (Status cr)) \<in>
        {ClusterStateUnspecified, ClusterStateDegraded, ClusterStateError,
         ClusterStateReconciling} \<longrightarrow>
      ready_conditions (Observe_conditions cr) = {Unavailable})"
proof (intro conjI impI)
  assume "cluster_Status (AtProvider (Status cr)) = ClusterStateRunning"
  then have run: "Observe_conditions cr =
      SetBindable
        (cr\<lparr>Status := (Status cr)
           \<lparr>Conditions := SetCondition (Conditions (Status cr)) Available\<rparr>\<rparr>)"
    by (rule Observe_conditions_Running)
  show "ready_conditions (Observe_conditions cr) = {Available}"
    by (simp add: run ready_conditions_set Available_def)
  show "bindable (Observe_conditions cr)"
    by (simp add: run)
next
  assume "cluster_Status (AtProvider (Status cr)) = ClusterStateProvisioning"
  then show "ready_conditions (Observe_conditions cr) = {Creating}"
    by (simp add: Observe_conditions_Provisioning ready_conditions_set Creating_def)
next
  assume "cluster_Status (AtProvider (Status cr)) \<in>
        {ClusterStateUnspecified, ClusterStateDegraded, ClusterStateError,
         ClusterStateReconciling}"
  then have "Observe_conditions cr =
      cr\<lparr>Status := (Status cr)
        \<lparr>Conditions := SetCondition (Conditions (Status cr)) Unavailable\<rparr>\<rparr>"
    by (rule Observe_conditions_Unavailable)
  then show "ready_conditions (Observe_conditions cr) = {Unavailable}"
    by (simp add: ready_conditions_set Unavailable_def)
qed

lemma Observe_conditions_AtProvider:
  "AtProvider (Status (Observe_conditions cr)) = AtProvider (Status cr)"
  by (simp add: Observe_conditions_def Let_def SetBindable_def)

lemma Observe_conditions_other:
  assumes "cluster_Status (AtProvider (Status cr)) \<notin>
             {ClusterStateRunning, ClusterStateProvisioning, ClusterStateUnspecified,
              ClusterStateDegraded, ClusterStateError, ClusterStateReconciling}"
  shows "Observe_conditions cr = cr"
  using assms by (simp add: Observe_conditions_def)

text \<open>
  C7, as claimed, fails. The provider holds the cluster, in state \<open>RUNNING\<close>, and late
  initialization fills the spec; the store refuses the write. \<open>Observe\<close> returns the
  error before it reaches the switch on the status: the resource carries no condition
  and is not marked bindable, and the observation returned says the resource does not
  exist.
\<close>

theorem Observe_maps_status_counterexample:
  "Clusters_Get_Do
     (cluster (example_external (Inr (''RUNNING'', 3)) (Some (StoreError ''conflict'')) None)) []
     (ExternalName (example_cr None)) = Inr (''RUNNING'', 3) \<and>
   ResourceExists (res_value (Observe example_gke
      (example_external (Inr (''RUNNING'', 3)) (Some (StoreError ''conflict'')) None) []
      (GKEClusterManaged (example_cr None)))) = False \<and>
   res_managed (Observe example_gke
      (example_external (Inr (''RUNNING'', 3)) (Some (StoreError ''conflict'')) None) []
      (GKEClusterManaged (example_cr None))) =
     GKEClusterManaged ((example_cr (Some 3))
       \<lparr>Status := (Status (example_cr None))
          \<lparr>AtProvider := \<lparr>cluster_Status = ''RUNNING''\<rparr>\<rparr>\<rparr>) \<and>
   ready_conditions ((example_cr (Some 3))
       \<lparr>Status := (Status (example_cr None))
          \<lparr>AtProvider := \<lparr>cluster_Status = ''RUNNING''\<rparr>\<rparr>\<rparr>) = {} \<and>
   \<not> bindable ((example_cr (Some 3))
       \<lparr>Status := (Status (example_cr None))
          \<lparr>AtProvider := \<lparr>cluster_Status = ''RUNNING''\<rparr>\<rparr>\<rparr>)"
  by (simp add: Observe_def example_defs Let_def error_defs ExternalObservation_zero_def
        ready_conditions_def bindable_def)

text \<open>
  C7, amended. Whenever \<open>Observe\<close> finds the cluster and returns without error (late
  initialization left the spec as it was, or the store accepted the late-initialized
  spec), the observation says the resource exists, \<open>Status.AtProvider\<close> is the
  observation of the fetched cluster, and the status of that observation decides the
  one condition of type \<open>Ready\<close>: \<open>RUNNING\<close> gives \<open>Available\<close> and a bindable resource,
  \<open>PROVISIONING\<close> gives \<open>Creating\<close>, and the unspecified, degraded, error and
  reconciling states give \<open>Unavailable\<close>.
\<close>

theorem Observe_maps_status:
  assumes found: "Clusters_Get_Do (cluster e) calls (ExternalName cr) = Inr existing"
    and ok: "res_error (Observe g e calls (GKEClusterManaged cr)) = None"
  shows "ResourceExists (res_value (Observe g e calls (GKEClusterManaged cr))) \<and>
         (\<exists>cr'. res_managed (Observe g e calls (GKEClusterManaged cr)) = GKEClusterManaged cr' \<and>
            AtProvider (Status cr') = gke_GenerateObservation g existing \<and>
            (cluster_Status (gke_GenerateObservation g existing) = ClusterStateRunning \<longrightarrow>
               ready_conditions cr' = {Available} \<and> bindable cr') \<and>
            (cluster_Status (gke_GenerateObservation g existing) = ClusterStateProvisioning \<longrightarrow>
               ready_conditions cr' = {Creating}) \<and>
            (cluster_Status (gke_GenerateObservation g existing) \<in>
                 {ClusterStateUnspecified, ClusterStateDegraded, ClusterStateError,
                  ClusterStateReconciling} \<longrightarrow>
               ready_conditions cr' = {Unavailable}))"
proof -
  define cr1 where "cr1 = cr
    \<lparr>Status := (Status cr)\<lparr>AtProvider := gke_GenerateObservation g existing\<rparr>,
     Spec := (Spec cr)
       \<lparr>ForProvider := gke_LateInitializeSpec g (ForProvider (Spec cr)) existing\<rparr>\<rparr>"
  have at: "AtProvider (Status cr1) = gke_GenerateObservation g existing"
    by (simp add: cr1_def)
  from found ok have r: "res_managed (Observe g e calls (GKEClusterManaged cr)) =
      GKEClusterManaged (Observe_conditions cr1)"
    and x: "ResourceExists (res_value (Observe g e calls (GKEClusterManaged cr)))"
    by (auto simp: Observe_def Let_def cr1_def error_defs split: if_splits)
  from Observe_conditions_table [of cr1] at r x show ?thesis
    by (simp add: Observe_conditions_AtProvider)
qed


theorem Observe_maps_status_witness:
  "(\<exists>cr'. res_managed (Observe example_gke (example_external (Inr (''RUNNING'', 3)) None None) []
             (GKEClusterManaged (example_cr None))) = GKEClusterManaged cr' \<and>
          ready_conditions cr' = {Available} \<and> bindable cr') \<and>
   ResourceExists (res_value
     (Observe example_gke (example_external (Inr (''RUNNING'', 3)) None None) []
        (GKEClusterManaged (example_cr None)))) \<and>
   (\<exists>cr'. res_managed (Observe example_gke
             (example_external (Inr (''PROVISIONING'', 3)) None None) []
             (GKEClusterManaged (example_cr None))) = GKEClusterManaged cr' \<and>
          ready_conditions cr' = {Creating}) \<and>
   (\<exists>cr'. res_managed (Observe example_gke
             (example_external (Inr (''DEGRADED'', 3)) None None) []
             (GKEClusterManaged (example_cr None))) = GKEClusterManaged cr' \<and>
          ready_conditions cr' = {Unavailable})"
proof -
  have found: "\<And>st. Clusters_Get_Do (cluster (example_external (Inr (st, 3)) None None)) []
      (ExternalName (example_cr None)) = Inr (st, 3)"
    by (simp add: example_defs)
  have ok: "\<And>st. res_error (Observe example_gke (example_external (Inr (st, 3)) None None) []
      (GKEClusterManaged (example_cr None))) = None"
    by (simp add: Observe_def example_defs Let_def)
  have st: "\<And>st. cluster_Status (gke_GenerateObservation example_gke (st, 3::nat)) = st"
    by (simp add: example_gke_def)
  have "''RUNNING'' = ClusterStateRunning" "''PROVISIONING'' = ClusterStateProvisioning"
    "''DEGRADED'' = ClusterStateDegraded"
    by (simp_all add: ClusterState_defs)
  with Observe_maps_status [OF found [of "''RUNNING''"] ok [of "''RUNNING''"]]
    Observe_maps_status [OF found [of "''PROVISIONING''"] ok [of "''PROVISIONING''"]]
    Observe_maps_status [OF found [of "''DEGRADED''"] ok [of "''DEGRADED''"]]
  show ?thesis
    unfolding st by (metis insertI1 insertI2)
qed


end
